theory Spec2Isabelle
  imports
    Main
    "HOL-Library.Finite_Map"
    "HOL-Library.Option_ord"
    "HOL-Library.List_Lexorder"
    "HOL-Library.Product_Lexorder"
begin

section \<open>Exceptions\<close>

text \<open>
  Every \<open>raise\<close> and every failing \<open>assert\<close> of the Python sources is a value of
  \<open>py_error\<close>; a function that can raise returns \<open>py_error + 'a\<close>, with \<open>Inl\<close> the
  exception.
\<close>

datatype py_error =
  TypeError | ValueError | KeyError | AttributeError | RuntimeError | AssertionError

section \<open>redb/fields.py: field descriptors\<close>

subsection \<open>Values and types\<close>

text \<open>
  The values a field can be given: \<open>None\<close>, integers (Python 2 \<open>int\<close> and \<open>long\<close>
  together, unbounded), byte strings and \<open>datetime.datetime\<close> objects. A datetime is
  kept abstract: a clock reading and the optional time zone (\<open>tzinfo\<close>), which is all
  that \<open>DateField\<close> looks at.
\<close>

record datetime =
  clock :: int
  tzinfo :: "string option"

datatype pyval = PNone | PInt int | PStr string | PDateTime datetime

text \<open>\<open>type(value)\<close>, by the name of the type.\<close>

fun type_name :: "pyval \<Rightarrow> string" where
  "type_name PNone = ''NoneType''"
| "type_name (PInt i) = ''int''"
| "type_name (PStr s) = ''str''"
| "type_name (PDateTime d) = ''datetime''"

text \<open>
  A Python type object as \<open>Field\<close> uses it: it is compared with \<open>type(value)\<close> and
  it is called on a value to convert it. The call can raise.
\<close>

record pytype =
  tname :: string
  tcall :: "pyval \<Rightarrow> py_error + pyval"

text \<open>
  The built-in \<open>int\<close>. How a string is read as a number is a parameter \<open>atoi\<close>
  (\<open>None\<close> when the string is no integer literal, where Python raises
  \<open>ValueError\<close>); \<open>None\<close> and datetimes are rejected with \<open>TypeError\<close>.
\<close>

definition py_int :: "(string \<Rightarrow> int option) \<Rightarrow> pyval \<Rightarrow> py_error + pyval" where
  "py_int atoi v =
     (case v of
        PInt i \<Rightarrow> Inr (PInt i)
      | PStr s \<Rightarrow> (case atoi s of Some i \<Rightarrow> Inr (PInt i) | None \<Rightarrow> Inl ValueError)
      | PNone \<Rightarrow> Inl TypeError
      | PDateTime d \<Rightarrow> Inl TypeError)"

definition int_type :: "(string \<Rightarrow> int option) \<Rightarrow> pytype" where
  "int_type atoi = \<lparr>tname = ''int'', tcall = py_int atoi\<rparr>"

text \<open>The built-in \<open>str\<close>; the text it gives for a non-string is a parameter.\<close>

definition str_type :: "(pyval \<Rightarrow> string) \<Rightarrow> pytype" where
  "str_type to_str =
     \<lparr>tname = ''str'', tcall = (\<lambda>v. Inr (PStr (case v of PStr s \<Rightarrow> s | _ \<Rightarrow> to_str v)))\<rparr>"

text \<open>
  \<open>datetime.datetime\<close> called with one positional argument: year, month and day are
  required, so the call raises \<open>TypeError\<close> whatever the argument is.
\<close>

definition datetime_type :: pytype where
  "datetime_type = \<lparr>tname = ''datetime'', tcall = (\<lambda>v. Inl TypeError)\<rparr>"

subsection \<open>Field and its subclasses\<close>

datatype field_class = CField | CIntField | CFloatField | CStringField | CDateField

record field =
  field_cls :: field_class
  field_type :: pytype
  primary_key :: bool

text \<open>
  \<open>Field.__init__(self, field_type, *args, **kw)\<close>: asserts that \<open>field_type\<close> is not
  \<open>None\<close>, stores it, and pops \<open>primary_key\<close> from the keyword options (default
  \<open>False\<close>). Nothing else is read from \<open>kw\<close>. The options are boolean flags.
\<close>

definition Field_init :: "field_class \<Rightarrow> pytype option \<Rightarrow> (string \<rightharpoonup> bool) \<Rightarrow> py_error + field" where
  "Field_init c ft kw =
     (case ft of
        None \<Rightarrow> Inl AssertionError
      | Some t \<Rightarrow>
          Inr \<lparr>field_cls = c, field_type = t,
               primary_key = (case kw ''primary_key'' of Some b \<Rightarrow> b | None \<Rightarrow> False)\<rparr>)"

definition IntField :: "(string \<Rightarrow> int option) \<Rightarrow> (string \<rightharpoonup> bool) \<Rightarrow> py_error + field" where
  "IntField atoi kw = Field_init CIntField (Some (int_type atoi)) kw"

text \<open>
  \<open>FloatField.__init__\<close> calls \<open>super(IntField, self)\<close> on an object that is no
  \<open>IntField\<close>, which raises \<open>TypeError\<close>: no \<open>FloatField\<close> is ever built.
\<close>

definition FloatField :: "(string \<rightharpoonup> bool) \<Rightarrow> py_error + field" where
  "FloatField kw = Inl TypeError"

definition StringField :: "(pyval \<Rightarrow> string) \<Rightarrow> (string \<rightharpoonup> bool) \<Rightarrow> py_error + field" where
  "StringField to_str kw = Field_init CStringField (Some (str_type to_str)) kw"

definition DateField :: "(string \<rightharpoonup> bool) \<Rightarrow> py_error + field" where
  "DateField kw = Field_init CDateField (Some datetime_type) kw"

text \<open>\<open>Field.cast\<close>.\<close>

definition Field_cast :: "field \<Rightarrow> pyval \<Rightarrow> py_error + pyval" where
  "Field_cast f v =
     (if v = PNone then Inr PNone
      else if type_name v \<noteq> tname (field_type f) then tcall (field_type f) v
      else Inr v)"

text \<open>
  Modelled from the spec: \<open>tzadd\<close> (imported from the package's \<open>__init__\<close>, which is
  not among the sources) assigns the default time zone to a naive datetime. The default
  zone is the parameter \<open>tz\<close>.
\<close>

definition tzadd :: "string \<Rightarrow> datetime \<Rightarrow> datetime" where
  "tzadd tz d = d\<lparr>tzinfo := Some tz\<rparr>"

text \<open>
  The two lines \<open>if value.tzinfo is None: value = tzadd(value)\<close> that end both
  \<open>DateField.cast\<close> and \<open>DateField.loads\<close>. Reading \<open>.tzinfo\<close> of a value that is
  no datetime raises \<open>AttributeError\<close>.
\<close>

definition with_tzinfo :: "string \<Rightarrow> pyval \<Rightarrow> py_error + pyval" where
  "with_tzinfo tz v =
     (case v of
        PDateTime d \<Rightarrow> Inr (PDateTime (if tzinfo d = None then tzadd tz d else d))
      | _ \<Rightarrow> Inl AttributeError)"

text \<open>
  \<open>DateField.loads\<close>. \<open>dateutil.parser.parse\<close> is the parameter \<open>parse\<close>: it returns
  a datetime or raises.
\<close>

definition DateField_loads ::
  "(string \<Rightarrow> py_error + datetime) \<Rightarrow> string \<Rightarrow> pyval \<Rightarrow> py_error + pyval" where
  "DateField_loads parse tz date =
     (if date = PNone \<or> date = PStr ''null'' then Inr PNone
      else
        (case (case date of
                 PStr s \<Rightarrow> (case parse s of Inl e \<Rightarrow> Inl e | Inr d \<Rightarrow> Inr (PDateTime d))
               | _ \<Rightarrow> Inr date) of
           Inl e \<Rightarrow> Inl e
         | Inr date' \<Rightarrow> with_tzinfo tz date'))"

text \<open>\<open>DateField.cast\<close>.\<close>

definition DateField_cast ::
  "(string \<Rightarrow> py_error + datetime) \<Rightarrow> string \<Rightarrow> field \<Rightarrow> pyval \<Rightarrow> py_error + pyval" where
  "DateField_cast parse tz f v =
     (if v = PNone then Inr PNone
      else if type_name v = ''str'' then DateField_loads parse tz v
      else
        (case (if type_name v \<noteq> tname (field_type f) then tcall (field_type f) v else Inr v) of
           Inl e \<Rightarrow> Inl e
         | Inr v' \<Rightarrow> with_tzinfo tz v'))"

text \<open>\<open>field.cast(value)\<close>: the method of the object's class.\<close>

definition cast ::
  "(string \<Rightarrow> py_error + datetime) \<Rightarrow> string \<Rightarrow> field \<Rightarrow> pyval \<Rightarrow> py_error + pyval" where
  "cast parse tz f v =
     (if field_cls f = CDateField then DateField_cast parse tz f v else Field_cast f v)"

text \<open>
  A type whose call, when it returns, returns an object of the type itself, as the
  built-in types do.
\<close>

definition returns_own_type :: "pytype \<Rightarrow> bool" where
  "returns_own_type t = (\<forall>v r. tcall t v = Inr r \<longrightarrow> type_name r = tname t)"

section \<open>alkali/model.py: model instances\<close>

subsection \<open>Field values and primary keys\<close>

text \<open>
  The model and the manager never look inside a field value: they compare values with
  \<open>==\<close> and \<open>!=\<close>, test them against \<open>None\<close>, and sort primary keys. A field value
  is therefore a \<open>'v option\<close>: \<open>None\<close> is Python's \<open>None\<close>, \<open>Some x\<close> any other
  value, with equality of \<open>'v\<close> for \<open>==\<close> and, where keys are sorted, the order of
  \<open>'v\<close> for Python's \<open><\<close> (under which \<open>None\<close> is smaller than every other value).

  \<open>Model.pk\<close> is the value of the only primary-key field, or the tuple of the values
  when the schema has several (or none): \<open>KVal\<close> and \<open>KTuple\<close>. Tuples are ordered
  lexicographically. All keys of one manager have the same shape; between the shapes
  the order puts \<open>KVal\<close> first.
\<close>

datatype 'v key = KVal "'v option" | KTuple "'v option list"

fun key_rank :: "'v key \<Rightarrow> bool \<times> 'v option list" where
  "key_rank (KVal v) = (False, [v])"
| "key_rank (KTuple vs) = (True, vs)"

instantiation key :: (linorder) linorder
begin

definition less_eq_key :: "'a key \<Rightarrow> 'a key \<Rightarrow> bool" where
  "less_eq_key a b = (key_rank a \<le> key_rank b)"

definition less_key :: "'a key \<Rightarrow> 'a key \<Rightarrow> bool" where
  "less_key a b = (key_rank a < key_rank b)"

instance
proof
  fix x y z :: "'a key"
  show "(x < y) = (x \<le> y \<and> \<not> y \<le> x)"
    unfolding less_eq_key_def less_key_def by (rule less_le_not_le)
  show "x \<le> x"
    unfolding less_eq_key_def by simp
  show "x \<le> y \<Longrightarrow> y \<le> z \<Longrightarrow> x \<le> z"
    unfolding less_eq_key_def by (rule order_trans)
  show "x \<le> y \<or> y \<le> x"
    unfolding less_eq_key_def by (rule linear)
  show "x \<le> y \<Longrightarrow> y \<le> x \<Longrightarrow> x = y"
  proof -
    assume "x \<le> y" and "y \<le> x"
    then have "key_rank x = key_rank y"
      unfolding less_eq_key_def by (rule order_antisym)
    then show "x = y"
      by (cases x; cases y) simp_all
  qed
qed

end

subsection \<open>The schema and the instance\<close>

text \<open>
  \<open>Meta.fields\<close> maps a field name to its descriptor and \<open>Meta.pk_fields\<close> lists the
  names of the primary-key fields. The model uses one method of a descriptor,
  \<open>cast\<close>, so a descriptor is represented by that method (the descriptors of
  \<open>alkali.fields\<close> are not among the sources). \<open>ForeignKey\<close> fields, whose attribute
  read is a lookup in another manager, are outside the model: every attribute read
  returns the stored value.
\<close>

record 'v meta =
  schema_fields :: "string \<rightharpoonup> ('v option \<Rightarrow> py_error + 'v option)"
  pk_fields :: "string list"

text \<open>
  An instance: its class (\<open>type(self)\<close>, by name), the schema of the class, the field
  values in \<open>__dict__\<close>, the \<open>_dirty\<close> flag, and the value \<open>pk\<close> has remembered.
\<close>

record 'v model =
  class_name :: string
  Meta :: "'v meta"
  attrs :: "string \<rightharpoonup> 'v option"
  dirty_flag :: bool
  pk_memo :: "'v key option"

text \<open>\<open>getattr(self, name)\<close> for each name of a list; a missing attribute raises.\<close>

fun getattrs :: "(string \<rightharpoonup> 'a) \<Rightarrow> string list \<Rightarrow> py_error + 'a list" where
  "getattrs d [] = Inr []"
| "getattrs d (n # ns) =
     (case d n of
        None \<Rightarrow> Inl AttributeError
      | Some v \<Rightarrow> (case getattrs d ns of Inl e \<Rightarrow> Inl e | Inr vs \<Rightarrow> Inr (v # vs)))"

text \<open>
  Modelled from the spec: \<open>memoized_property\<close> (not among the sources), which decorates
  \<open>Model.pk\<close>, computes the value at the first read and returns the remembered value
  afterwards. \<open>pk_memo\<close> is the remembered value. \<open>Model_pk\<close> returns it when there is
  one, and otherwise computes what the body of \<open>Model.pk\<close> computes.
\<close>

definition Model_pk :: "'v model \<Rightarrow> py_error + 'v key" where
  "Model_pk self =
     (case pk_memo self of
        Some k \<Rightarrow> Inr k
      | None \<Rightarrow>
          (case getattrs (attrs self) (pk_fields (Meta self)) of
             Inl e \<Rightarrow> Inl e
           | Inr pks \<Rightarrow> Inr (case pks of [v] \<Rightarrow> KVal v | _ \<Rightarrow> KTuple pks)))"

text \<open>\<open>Model.dirty\<close>.\<close>

definition Model_dirty :: "'v model \<Rightarrow> bool" where
  "Model_dirty self = dirty_flag self"

text \<open>
  \<open>Model.__assign_field\<close>. The \<open>field_update\<close> signal sent at the end has no effect
  on the instance and is left out. The message of the \<open>RuntimeError\<close> formats
  \<open>self.pk\<close>, so a \<open>pk\<close> that raises is raised instead.
\<close>

definition Model_assign_field :: "'v model \<Rightarrow> string \<Rightarrow> 'v option \<Rightarrow> py_error + 'v model" where
  "Model_assign_field self attr val =
     (case schema_fields (Meta self) attr of
        None \<Rightarrow> Inl KeyError
      | Some field_cast \<Rightarrow>
          (case field_cast val of
             Inl e \<Rightarrow> Inl e
           | Inr v \<Rightarrow>
               (case attrs self attr of
                  Some curr_val \<Rightarrow>
                    if attr \<in> set (pk_fields (Meta self)) \<and> curr_val \<noteq> None \<and> curr_val \<noteq> v
                    then (case Model_pk self of Inl e \<Rightarrow> Inl e | Inr k \<Rightarrow> Inl RuntimeError)
                    else Inr (self\<lparr>attrs := (attrs self)(attr \<mapsto> v), dirty_flag := (curr_val \<noteq> v)\<rparr>)
                | None \<Rightarrow> Inr (self\<lparr>attrs := (attrs self)(attr \<mapsto> v)\<rparr>))))"

text \<open>\<open>Model.__setattr__\<close>.\<close>

definition Model_setattr :: "'v model \<Rightarrow> string \<Rightarrow> 'v option \<Rightarrow> py_error + 'v model" where
  "Model_setattr self attr val =
     (if schema_fields (Meta self) attr \<noteq> None then Model_assign_field self attr val
      else Inr (self\<lparr>attrs := (attrs self)(attr \<mapsto> val)\<rparr>))"

text \<open>
  \<open>Model.__eq__\<close> and \<open>Model.__ne__\<close>. The other operand is any Python object: a
  model instance, or a value that is none.
\<close>

datatype 'v pyobj = Obj "'v model" | NotAModel "'v option"

definition Model_eq :: "'v model \<Rightarrow> 'v pyobj \<Rightarrow> py_error + bool" where
  "Model_eq self other =
     (case other of
        NotAModel x \<Rightarrow> Inr False
      | Obj b \<Rightarrow>
          if class_name self \<noteq> class_name b then Inr False
          else
            (case Model_pk self of
               Inl e \<Rightarrow> Inl e
             | Inr k \<Rightarrow> (case Model_pk b of Inl e \<Rightarrow> Inl e | Inr k' \<Rightarrow> Inr (k = k'))))"

definition Model_ne :: "'v model \<Rightarrow> 'v pyobj \<Rightarrow> py_error + bool" where
  "Model_ne self other =
     (case Model_eq self other of Inl e \<Rightarrow> Inl e | Inr b \<Rightarrow> Inr (\<not> b))"

section \<open>alkali/manager.py: the manager\<close>

text \<open>
  The class a manager holds: its name, and the call of the class on keyword arguments,
  which builds an instance from a mapping of field values (\<open>MetaModel.__call__\<close> is
  not among the sources, so the call is a component of the class, as it is in Python).
\<close>

record 'v model_class =
  cls_name :: string
  cls_call :: "(string \<rightharpoonup> 'v option) \<Rightarrow> py_error + 'v model"

record 'v manager =
  m_model_class :: "'v model_class"
  m_instances :: "('v key, 'v model) fmap"
  m_dirty :: bool

text \<open>
  Modelled from the spec: the Storage collaborator (\<open>alkali.storage\<close> is not among the
  sources). \<open>read(model_class)\<close> yields a sequence of records, each a model instance or
  a mapping of field values; \<open>write\<close> receives a sequence of instances. The storage
  keeps what \<open>read\<close> will yield and the sequences \<open>write\<close> has received, oldest first.
\<close>

datatype 'v elem = Instance "'v model" | RawDict "string \<rightharpoonup> 'v option"

record 'v storage =
  contents :: "'v elem list"
  written :: "'v model list list"

definition Storage_read :: "'v storage \<Rightarrow> 'v model_class \<Rightarrow> 'v elem list" where
  "Storage_read st mc = contents st"

definition Storage_write :: "'v storage \<Rightarrow> 'v model list \<Rightarrow> 'v storage" where
  "Storage_write st xs = st\<lparr>written := written st @ [xs]\<rparr>"

text \<open>\<open>Manager.__len__\<close>, \<open>Manager.clear\<close> and \<open>Manager.__init__\<close>.\<close>

definition Manager_len :: "'v manager \<Rightarrow> nat" where
  "Manager_len self = fcard (fmdom (m_instances self))"

definition Manager_clear :: "'v manager \<Rightarrow> 'v manager" where
  "Manager_clear self = self\<lparr>m_dirty := (Manager_len self > 0), m_instances := fmempty\<rparr>"

definition Manager_init :: "'v model_class \<Rightarrow> 'v manager" where
  "Manager_init mc = Manager_clear \<lparr>m_model_class = mc, m_instances = fmempty, m_dirty = False\<rparr>"

text \<open>\<open>Manager.sorter\<close>: the instances in the order of their sorted keys.\<close>

definition Manager_sorter :: "('v::linorder key, 'v model) fmap \<Rightarrow> bool \<Rightarrow> 'v model list" where
  "Manager_sorter elements reverse =
     (let keys = sorted_list_of_fset (fmdom elements);
          keys = (if reverse then rev keys else keys)
      in map (\<lambda>key. the (fmlookup elements key)) keys)"

text \<open>The properties \<open>Manager.instances\<close> and \<open>Manager.dirty\<close>.\<close>

definition Manager_instances :: "'v::linorder manager \<Rightarrow> 'v model list" where
  "Manager_instances self = Manager_sorter (m_instances self) False"

definition Manager_dirty :: "'v::linorder manager \<Rightarrow> bool" where
  "Manager_dirty self =
     (if m_dirty self then True else list_ex Model_dirty (Manager_instances self))"

text \<open>
  \<open>Manager.save\<close>. Reading \<open>instance.pk\<close> leaves the value remembered in the
  instance, which is the object the manager then holds.
\<close>

definition Manager_save :: "'v manager \<Rightarrow> 'v model \<Rightarrow> bool \<Rightarrow> py_error + 'v manager" where
  "Manager_save self inst dirty =
     (case Model_pk inst of
        Inl e \<Rightarrow> Inl e
      | Inr k \<Rightarrow>
          if k = KVal None then Inl AssertionError
          else Inr (self\<lparr>m_instances := fmupd k (inst\<lparr>pk_memo := Some k\<rparr>) (m_instances self),
                          m_dirty := (if dirty then True else m_dirty self)\<rparr>))"

text \<open>
  \<open>Model.save\<close>, with the manager of the instance's class (\<open>self.__class__.objects\<close>)
  as an argument: returns the manager and the instance after the call. The manager
  holds the instance itself, so the \<open>_dirty\<close> flag cleared after \<open>Manager.save\<close> is
  cleared in the manager's entry too.
\<close>

definition Model_save :: "'v manager \<Rightarrow> 'v model \<Rightarrow> py_error + 'v manager \<times> 'v model" where
  "Model_save objects self =
     (case Manager_save objects self True of
        Inl e \<Rightarrow> Inl e
      | Inr objects' \<Rightarrow>
          (case Model_pk self of
             Inl e \<Rightarrow> Inl e
           | Inr k \<Rightarrow>
               let self' = self\<lparr>pk_memo := Some k, dirty_flag := False\<rparr>
               in Inr (objects'\<lparr>m_instances := fmupd k self' (m_instances objects')\<rparr>, self')))"

text \<open>\<open>Manager.delete\<close>: the \<open>KeyError\<close> of \<open>del\<close> on a missing key is caught.\<close>

definition Manager_delete :: "'v manager \<Rightarrow> 'v model \<Rightarrow> py_error + 'v manager" where
  "Manager_delete self inst =
     (case Model_pk inst of
        Inl e \<Rightarrow> Inl e
      | Inr k \<Rightarrow>
          if k |\<in>| fmdom (m_instances self)
          then Inr (self\<lparr>m_instances := fmdrop k (m_instances self), m_dirty := True\<rparr>)
          else Inr self)"

text \<open>\<open>Manager.store\<close>: returns the manager and the storage after the call.\<close>

definition Manager_store ::
  "'v::linorder manager \<Rightarrow> 'v storage \<Rightarrow> bool \<Rightarrow> 'v manager \<times> 'v storage" where
  "Manager_store self st force =
     (let self1 = (if force then self\<lparr>m_dirty := True\<rparr> else self);
          st' = (if Manager_dirty self1
                 then Storage_write st (Manager_sorter (m_instances self1) False)
                 else st)
      in (self1\<lparr>m_dirty := False\<rparr>, st'))"

text \<open>
  \<open>Manager.load\<close>. \<open>as_instance\<close> is the first statement of the loop body (a record
  that is a \<open>dict\<close> is replaced by the instance the model class builds from it), and
  \<open>load_loop\<close> is the \<open>for\<close> loop over the records that \<open>read\<close> yields. An exception
  ends the call after the collection has been cleared and the records before the
  failing one have been inserted, so the result of a call that raises is the exception
  together with the manager as the call leaves it.
\<close>

definition as_instance :: "'v model_class \<Rightarrow> 'v elem \<Rightarrow> py_error + 'v model" where
  "as_instance mc elem = (case elem of RawDict d \<Rightarrow> cls_call mc d | Instance i \<Rightarrow> Inr i)"

fun load_loop :: "'v manager \<Rightarrow> 'v elem list \<Rightarrow> py_error \<times> 'v manager + 'v manager" where
  "load_loop self [] = Inr self"
| "load_loop self (elem # rest) =
     (case as_instance (m_model_class self) elem of
        Inl e \<Rightarrow> Inl (e, self)
      | Inr inst \<Rightarrow>
          (case Model_pk inst of
             Inl e \<Rightarrow> Inl (e, self)
           | Inr k \<Rightarrow>
               if k |\<in>| fmdom (m_instances self) then Inl (KeyError, self)
               else
                 (case Manager_save self inst False of
                    Inl e \<Rightarrow> Inl (e, self)
                  | Inr self' \<Rightarrow> load_loop self' rest)))"

definition Manager_load ::
  "'v manager \<Rightarrow> 'v storage \<Rightarrow> py_error \<times> 'v manager + 'v manager" where
  "Manager_load self st =
     (let self0 = Manager_clear self in
      case load_loop self0 (Storage_read st (m_model_class self0)) of
        Inl (e, self1) \<Rightarrow> Inl (e, self1)
      | Inr self1 \<Rightarrow> Inr (self1\<lparr>m_dirty := False\<rparr>))"

section \<open>Sample objects\<close>

text \<open>
  Concrete objects on which the definitions are evaluated: a reader of integer literals
  that knows one literal, a date parser that knows two texts, and one field of each of
  two classes.
\<close>

definition sample_atoi :: "string \<Rightarrow> int option" where
  "sample_atoi s = (if s = ''7'' then Some 7 else None)"

definition sample_parse :: "string \<Rightarrow> py_error + datetime" where
  "sample_parse s =
     (if s = ''2016-07-20 17:53'' then Inr \<lparr>clock = 1469037180, tzinfo = None\<rparr>
      else if s = ''2016-07-20T17:53+00:00'' then Inr \<lparr>clock = 1469037180, tzinfo = Some ''UTC''\<rparr>
      else Inl ValueError)"

definition sample_int_field :: field where
  "sample_int_field =
     \<lparr>field_cls = CIntField, field_type = int_type sample_atoi, primary_key = False\<rparr>"

definition sample_date_field :: field where
  "sample_date_field =
     \<lparr>field_cls = CDateField, field_type = datetime_type, primary_key = False\<rparr>"

text \<open>
  A model class \<open>M\<close> with an integer primary-key field \<open>x\<close> and a second field \<open>s\<close>,
  whose descriptors cast every value to itself; an instance of it with given values
  and \<open>_dirty\<close> flag; and the class object, whose call builds a clean instance holding
  the given values.
\<close>

definition sample_meta :: "int meta" where
  "sample_meta = \<lparr>schema_fields = [''x'' \<mapsto> Inr, ''s'' \<mapsto> Inr], pk_fields = [''x'']\<rparr>"

definition sample_model :: "int option \<Rightarrow> int option \<Rightarrow> bool \<Rightarrow> int model" where
  "sample_model x s d =
     \<lparr>class_name = ''M'', Meta = sample_meta, attrs = [''x'' \<mapsto> x, ''s'' \<mapsto> s],
      dirty_flag = d, pk_memo = None\<rparr>"

definition sample_class :: "int model_class" where
  "sample_class =
     \<lparr>cls_name = ''M'',
      cls_call = (\<lambda>d. Inr \<lparr>class_name = ''M'', Meta = sample_meta, attrs = d,
                             dirty_flag = False, pk_memo = None\<rparr>)\<rparr>"

section \<open>Properties of the field descriptors\<close>

lemma DateField_result:
  "DateField kw = Inr g \<Longrightarrow> field_cls g = CDateField \<and> field_type g = datetime_type"
  by (auto simp: DateField_def Field_init_def)

lemma date_cast_cases:
  assumes "field_cls g = CDateField" "field_type g = datetime_type"
  shows "cast parse tz g PNone = Inr PNone"
    and "cast parse tz g (PStr ''null'') = Inr PNone"
    and "s \<noteq> ''null'' \<Longrightarrow> cast parse tz g (PStr s) =
          (case parse s of Inl e \<Rightarrow> Inl e
           | Inr d \<Rightarrow> Inr (PDateTime (if tzinfo d = None then tzadd tz d else d)))"
    and "cast parse tz g (PDateTime d) = Inr (PDateTime (if tzinfo d = None then tzadd tz d else d))"
    and "cast parse tz g (PInt n) = Inl TypeError"
  using assms
  by (auto simp: cast_def DateField_cast_def DateField_loads_def with_tzinfo_def datetime_type_def
      split: sum.splits)

lemma date_cast_aware:
  assumes "field_cls g = CDateField" "field_type g = datetime_type"
    and "v \<noteq> PNone" "v \<noteq> PStr ''null''" "cast parse tz g v = Inr r"
  shows "\<exists>d. r = PDateTime d \<and> tzinfo d \<noteq> None"
  using assms
  by (cases v)
    (auto simp: cast_def DateField_cast_def DateField_loads_def with_tzinfo_def
      datetime_type_def tzadd_def split: sum.splits if_splits)

lemma date_cast_idem:
  assumes "field_cls g = CDateField" "field_type g = datetime_type"
    and "cast parse tz g v = Inr r"
  shows "cast parse tz g r = Inr r"
  using assms
  by (cases v)
    (auto simp: cast_def DateField_cast_def DateField_loads_def with_tzinfo_def
      datetime_type_def tzadd_def split: sum.splits if_splits)

lemma field_cast_idem:
  assumes "field_cls f \<noteq> CDateField" "returns_own_type (field_type f)"
    and "cast parse tz f v = Inr r"
  shows "cast parse tz f r = Inr r"
  using assms
  by (auto simp: cast_def Field_cast_def returns_own_type_def split: if_splits)

lemma int_type_own: "returns_own_type (int_type atoi)"
  by (auto simp: returns_own_type_def int_type_def py_int_def split: pyval.splits option.splits)

lemma str_type_own: "returns_own_type (str_type to_str)"
  by (auto simp: returns_own_type_def str_type_def)

text \<open>
  C6, as stated, fails: the claim has every cast of a value that is not of the declared
  type convert it to that type, and every cast of a datetime field return a
  timezone-aware value. \<open>DateField.cast\<close> hands a string to \<open>DateField.loads\<close>, which
  returns \<open>None\<close> for the string \<open>'null'\<close>: the input is not \<open>None\<close>, and the result is
  no datetime.
\<close>

theorem cast_null_string_counterexample:
  "DateField Map.empty = Inr sample_date_field
   \<and> PStr ''null'' \<noteq> PNone
   \<and> cast sample_parse ''UTC'' sample_date_field (PStr ''null'') = Inr PNone"
  by (simp add: DateField_def Field_init_def sample_date_field_def cast_def DateField_cast_def
      DateField_loads_def)

text \<open>
  C6 (amended). For every field descriptor \<open>cast(None)\<close> is \<open>None\<close>. For a field of a
  class that does not override \<open>cast\<close>, a value of the declared type is returned as it
  is, and any other value is given to the type's constructor, whose result or exception
  is the result of \<open>cast\<close> (so \<open>cast\<close> fails exactly when the conversion fails). For a
  \<open>DateField\<close>: the string \<open>'null'\<close> gives \<open>None\<close>; any other string is parsed, a
  parse error is raised, and a parsed datetime is returned with the default time zone
  if it was naive; a datetime is returned with the default time zone if it was naive and
  as it is otherwise; an integer raises \<open>TypeError\<close>; and whenever the input is neither
  \<open>None\<close> nor \<open>'null'\<close> and \<open>cast\<close> succeeds, the result is a timezone-aware datetime.
\<close>

theorem cast_amended:
  "cast parse tz f PNone = Inr PNone
   \<and> (field_cls f \<noteq> CDateField \<and> v \<noteq> PNone \<and> type_name v = tname (field_type f)
        \<longrightarrow> cast parse tz f v = Inr v)
   \<and> (field_cls f \<noteq> CDateField \<and> v \<noteq> PNone \<and> type_name v \<noteq> tname (field_type f)
        \<longrightarrow> cast parse tz f v = tcall (field_type f) v)
   \<and> (DateField kw = Inr g \<longrightarrow>
         cast parse tz g (PStr ''null'') = Inr PNone
       \<and> (s \<noteq> ''null'' \<longrightarrow> cast parse tz g (PStr s) =
            (case parse s of
               Inl e \<Rightarrow> Inl e
             | Inr d \<Rightarrow> Inr (PDateTime (if tzinfo d = None then tzadd tz d else d))))
       \<and> cast parse tz g (PDateTime d) =
            Inr (PDateTime (if tzinfo d = None then tzadd tz d else d))
       \<and> tzinfo (tzadd tz d) = Some tz
       \<and> cast parse tz g (PInt n) = Inl TypeError
       \<and> (w \<noteq> PNone \<and> w \<noteq> PStr ''null'' \<and> cast parse tz g w = Inr r
            \<longrightarrow> (\<exists>d'. r = PDateTime d' \<and> tzinfo d' \<noteq> None)))"
proof -
  have none: "cast parse tz f PNone = Inr PNone"
    by (simp add: cast_def Field_cast_def DateField_cast_def)
  have base: "field_cls f \<noteq> CDateField \<Longrightarrow> v \<noteq> PNone \<Longrightarrow>
      cast parse tz f v =
        (if type_name v = tname (field_type f) then Inr v else tcall (field_type f) v)"
    by (simp add: cast_def Field_cast_def)
  have date: "cast parse tz g (PStr ''null'') = Inr PNone
       \<and> (s \<noteq> ''null'' \<longrightarrow> cast parse tz g (PStr s) =
            (case parse s of
               Inl e \<Rightarrow> Inl e
             | Inr d \<Rightarrow> Inr (PDateTime (if tzinfo d = None then tzadd tz d else d))))
       \<and> cast parse tz g (PDateTime d) =
            Inr (PDateTime (if tzinfo d = None then tzadd tz d else d))
       \<and> tzinfo (tzadd tz d) = Some tz
       \<and> cast parse tz g (PInt n) = Inl TypeError
       \<and> (w \<noteq> PNone \<and> w \<noteq> PStr ''null'' \<and> cast parse tz g w = Inr r
            \<longrightarrow> (\<exists>d'. r = PDateTime d' \<and> tzinfo d' \<noteq> None))" if g: "DateField kw = Inr g"
  proof -
    from g have c: "field_cls g = CDateField" and t: "field_type g = datetime_type"
      by (simp_all add: DateField_result)
    have aw: "w \<noteq> PNone \<and> w \<noteq> PStr ''null'' \<and> cast parse tz g w = Inr r
            \<longrightarrow> (\<exists>d'. r = PDateTime d' \<and> tzinfo d' \<noteq> None)"
      using date_cast_aware[OF c t] by blast
    show ?thesis
      using date_cast_cases[OF c t] aw
      by (simp add: tzadd_def)
  qed
  show ?thesis
    using none base date by simp
qed

theorem cast_amended_witness:
  "cast sample_parse ''UTC'' sample_int_field PNone = Inr PNone
   \<and> cast sample_parse ''UTC'' sample_int_field (PInt 3) = Inr (PInt 3)
   \<and> cast sample_parse ''UTC'' sample_int_field (PStr ''7'') = Inr (PInt 7)
   \<and> cast sample_parse ''UTC'' sample_int_field (PStr ''abc'') = Inl ValueError
   \<and> cast sample_parse ''UTC'' sample_date_field (PStr ''null'') = Inr PNone
   \<and> cast sample_parse ''UTC'' sample_date_field (PStr ''2016-07-20 17:53'')
       = Inr (PDateTime \<lparr>clock = 1469037180, tzinfo = Some ''UTC''\<rparr>)
   \<and> cast sample_parse ''UTC'' sample_date_field (PStr ''tomorrow'') = Inl ValueError
   \<and> cast sample_parse ''UTC'' sample_date_field (PDateTime \<lparr>clock = 5, tzinfo = None\<rparr>)
       = Inr (PDateTime \<lparr>clock = 5, tzinfo = Some ''UTC''\<rparr>)
   \<and> cast sample_parse ''UTC'' sample_date_field (PInt 1) = Inl TypeError"
proof -
  have df: "DateField Map.empty = Inr sample_date_field"
    by (simp add: DateField_def Field_init_def sample_date_field_def)
  have a: "field_cls sample_int_field \<noteq> CDateField"
    "tname (field_type sample_int_field) = ''int''"
    by (simp_all add: sample_int_field_def int_type_def)
  show ?thesis
    using cast_amended[where f = sample_int_field and v = "PInt 3" and kw = Map.empty
        and g = sample_date_field and parse = sample_parse and tz = "''UTC''"
        and s = "''2016-07-20 17:53''" and d = "\<lparr>clock = 5, tzinfo = None\<rparr>" and n = 1
        and w = "PInt 1"]
      cast_amended[where f = sample_int_field and v = "PStr ''7''" and kw = Map.empty
        and g = sample_date_field and parse = sample_parse and tz = "''UTC''"
        and s = "''tomorrow''"]
      cast_amended[where f = sample_int_field and v = "PStr ''abc''" and kw = Map.empty
        and g = sample_date_field and parse = sample_parse and tz = "''UTC''"]
      df a
    by (simp add: sample_int_field_def int_type_def py_int_def sample_atoi_def
        sample_parse_def tzadd_def)
qed

text \<open>
  C10. \<open>cast\<close> is idempotent: when \<open>cast\<close> returns a value, \<open>cast\<close> of that value
  returns it again. This holds for a field of a class that does not override \<open>cast\<close>
  whose type, when called, returns objects of the type itself; for every \<open>IntField\<close>
  and \<open>StringField\<close>; and for every \<open>DateField\<close>. A value of the declared type is
  returned unchanged, and a \<open>DateField\<close> returns a timezone-aware datetime unchanged.
\<close>

theorem cast_idempotent:
  "(field_cls f \<noteq> CDateField \<and> returns_own_type (field_type f) \<and> cast parse tz f v = Inr r
      \<longrightarrow> cast parse tz f r = Inr r)
   \<and> (IntField atoi kw = Inr fi \<and> cast parse tz fi v = Inr r \<longrightarrow> cast parse tz fi r = Inr r)
   \<and> (StringField to_str kw = Inr fs \<and> cast parse tz fs v = Inr r
        \<longrightarrow> cast parse tz fs r = Inr r)
   \<and> (DateField kw = Inr g \<and> cast parse tz g v = Inr r \<longrightarrow> cast parse tz g r = Inr r)
   \<and> (field_cls f \<noteq> CDateField \<and> type_name v = tname (field_type f)
        \<longrightarrow> cast parse tz f v = Inr v)
   \<and> (DateField kw = Inr g \<and> tzinfo d \<noteq> None
        \<longrightarrow> cast parse tz g (PDateTime d) = Inr (PDateTime d))"
proof -
  have fi: "field_cls fi \<noteq> CDateField \<and> returns_own_type (field_type fi)"
    if "IntField atoi kw = Inr fi"
    using that int_type_own by (auto simp: IntField_def Field_init_def)
  have fs: "field_cls fs \<noteq> CDateField \<and> returns_own_type (field_type fs)"
    if "StringField to_str kw = Inr fs"
    using that str_type_own by (auto simp: StringField_def Field_init_def)
  have same: "field_cls f \<noteq> CDateField \<Longrightarrow> type_name v = tname (field_type f)
      \<Longrightarrow> cast parse tz f v = Inr v"
    by (auto simp: cast_def Field_cast_def)
  have aware: "cast parse tz g (PDateTime d) = Inr (PDateTime d)"
    if "DateField kw = Inr g" "tzinfo d \<noteq> None"
    using that date_cast_cases(4)[of g parse tz d] DateField_result[of kw g] by auto
  show ?thesis
    using field_cast_idem fi fs date_cast_idem DateField_result same aware by blast
qed

theorem cast_idempotent_witness:
  "cast sample_parse ''UTC'' sample_int_field (PStr ''7'') = Inr (PInt 7)
   \<and> cast sample_parse ''UTC'' sample_int_field (PInt 7) = Inr (PInt 7)
   \<and> cast sample_parse ''UTC'' sample_date_field (PStr ''2016-07-20 17:53'')
       = Inr (PDateTime \<lparr>clock = 1469037180, tzinfo = Some ''UTC''\<rparr>)
   \<and> cast sample_parse ''UTC'' sample_date_field
         (PDateTime \<lparr>clock = 1469037180, tzinfo = Some ''UTC''\<rparr>)
       = Inr (PDateTime \<lparr>clock = 1469037180, tzinfo = Some ''UTC''\<rparr>)"
proof -
  have df: "DateField Map.empty = Inr sample_date_field"
    by (simp add: DateField_def Field_init_def sample_date_field_def)
  have i: "IntField sample_atoi Map.empty = Inr sample_int_field"
    by (simp add: IntField_def Field_init_def sample_int_field_def)
  have c1: "cast sample_parse ''UTC'' sample_int_field (PStr ''7'') = Inr (PInt 7)"
    by (simp add: cast_def Field_cast_def sample_int_field_def int_type_def py_int_def
        sample_atoi_def)
  have c2: "cast sample_parse ''UTC'' sample_date_field (PStr ''2016-07-20 17:53'')
       = Inr (PDateTime \<lparr>clock = 1469037180, tzinfo = Some ''UTC''\<rparr>)"
    by (simp add: cast_def DateField_cast_def DateField_loads_def sample_date_field_def
        sample_parse_def with_tzinfo_def tzadd_def)
  show ?thesis
    using cast_idempotent[where fi = sample_int_field and atoi = sample_atoi and kw = Map.empty
        and parse = sample_parse and tz = "''UTC''" and v = "PStr ''7''" and r = "PInt 7"
        and f = sample_int_field]
      cast_idempotent[where g = sample_date_field and kw = Map.empty
        and parse = sample_parse and tz = "''UTC''" and v = "PStr ''2016-07-20 17:53''"
        and r = "PDateTime \<lparr>clock = 1469037180, tzinfo = Some ''UTC''\<rparr>"
        and f = sample_int_field]
      df i c1 c2
    by simp
qed

text \<open>
  C7, at the failing input \<open>IntField(some_keyword=True)\<close>: the constructor returns a
  field, with \<open>primary_key\<close> at its default, and raises nothing.
\<close>

theorem Field_init_ignores_unknown_options:
  "IntField atoi [''some_keyword'' \<mapsto> True]
     = Inr \<lparr>field_cls = CIntField, field_type = int_type atoi, primary_key = False\<rparr>"
  by (simp add: IntField_def Field_init_def)

section \<open>Properties of the model instance\<close>

lemma sample_pk [simp]: "Model_pk (sample_model x s d) = Inr (KVal x)"
  by (simp add: Model_pk_def sample_model_def sample_meta_def)

lemma built_pk:
  "Model_pk \<lparr>class_name = c, Meta = sample_meta, attrs = a, dirty_flag = d, pk_memo = None\<rparr>
     = (case a ''x'' of None \<Rightarrow> Inl AttributeError | Some v \<Rightarrow> Inr (KVal v))"
  by (simp add: Model_pk_def sample_meta_def split: option.splits)

lemma sample_call [simp]:
  "cls_call sample_class d = Inr \<lparr>class_name = ''M'', Meta = sample_meta, attrs = d,
                             dirty_flag = False, pk_memo = None\<rparr>"
  by (simp add: sample_class_def)

text \<open>
  C2, at a failing input: an instance of \<open>M\<close> with \<open>x = 1\<close> and \<open>s = 2\<close> is saved,
  which clears \<open>_dirty\<close>. Assigning \<open>s = 5\<close> changes the field and sets \<open>_dirty\<close>;
  assigning \<open>s = 5\<close> once more leaves the field as it is and resets \<open>_dirty\<close>, although
  \<open>s\<close> has changed since the save and nothing has marked the instance saved again.
\<close>

theorem assign_field_clears_dirty:
  "Model_save (Manager_init sample_class) (sample_model (Some 1) (Some 2) True)
     = Inr (\<lparr>m_model_class = sample_class,
             m_instances = fmupd (KVal (Some 1))
               ((sample_model (Some 1) (Some 2) False)\<lparr>pk_memo := Some (KVal (Some 1))\<rparr>) fmempty,
             m_dirty = True\<rparr>,
            (sample_model (Some 1) (Some 2) False)\<lparr>pk_memo := Some (KVal (Some 1))\<rparr>)
   \<and> Model_assign_field
        ((sample_model (Some 1) (Some 2) False)\<lparr>pk_memo := Some (KVal (Some 1))\<rparr>) ''s'' (Some 5)
     = Inr ((sample_model (Some 1) (Some 5) True)\<lparr>pk_memo := Some (KVal (Some 1))\<rparr>)
   \<and> Model_assign_field
        ((sample_model (Some 1) (Some 5) True)\<lparr>pk_memo := Some (KVal (Some 1))\<rparr>) ''s'' (Some 5)
     = Inr ((sample_model (Some 1) (Some 5) False)\<lparr>pk_memo := Some (KVal (Some 1))\<rparr>)
   \<and> Model_dirty ((sample_model (Some 1) (Some 5) False)\<lparr>pk_memo := Some (KVal (Some 1))\<rparr>)
     = False"
proof -
  have s: "Model_save (Manager_init sample_class) (sample_model (Some 1) (Some 2) True)
     = Inr (\<lparr>m_model_class = sample_class,
             m_instances = fmupd (KVal (Some 1))
               ((sample_model (Some 1) (Some 2) False)\<lparr>pk_memo := Some (KVal (Some 1))\<rparr>) fmempty,
             m_dirty = True\<rparr>,
            (sample_model (Some 1) (Some 2) False)\<lparr>pk_memo := Some (KVal (Some 1))\<rparr>)"
    by (simp add: Model_save_def Manager_save_def Manager_init_def Manager_clear_def
        Manager_len_def Let_def)
      (simp add: sample_model_def)
  have a: "Model_assign_field
        ((sample_model (Some 1) (Some 2) False)\<lparr>pk_memo := Some (KVal (Some 1))\<rparr>) ''s'' (Some 5)
     = Inr ((sample_model (Some 1) (Some 5) True)\<lparr>pk_memo := Some (KVal (Some 1))\<rparr>)"
    by (simp add: Model_assign_field_def sample_model_def sample_meta_def)
  have b: "Model_assign_field
        ((sample_model (Some 1) (Some 5) True)\<lparr>pk_memo := Some (KVal (Some 1))\<rparr>) ''s'' (Some 5)
     = Inr ((sample_model (Some 1) (Some 5) False)\<lparr>pk_memo := Some (KVal (Some 1))\<rparr>)"
    by (simp add: Model_assign_field_def sample_model_def sample_meta_def)
  have c: "Model_dirty
      ((sample_model (Some 1) (Some 5) False)\<lparr>pk_memo := Some (KVal (Some 1))\<rparr>) = False"
    by (simp add: Model_dirty_def sample_model_def)
  from s a b c show ?thesis by blast
qed

text \<open>
  C3, as stated, fails: the claim has the error raised only when a different value that
  is not \<open>None\<close> is assigned. Assigning \<open>None\<close> to the primary-key field \<open>x\<close> of an
  instance where \<open>x\<close> is \<open>1\<close> raises the same \<open>RuntimeError\<close>.
\<close>

theorem pk_none_assignment_counterexample:
  "attrs (sample_model (Some 1) (Some 2) False) ''x'' = Some (Some 1)
   \<and> Model_assign_field (sample_model (Some 1) (Some 2) False) ''x'' None = Inl RuntimeError"
  by (simp add: Model_assign_field_def Model_pk_def sample_model_def sample_meta_def)

text \<open>
  C3 (amended). Let \<open>a\<close> be a schema field whose descriptor casts the assigned value
  \<open>v\<close> to \<open>v'\<close>. If \<open>a\<close> is a primary-key field that already holds a value \<open>cur\<close>
  other than \<open>None\<close>, then assigning a value whose cast equals \<open>cur\<close> never raises
  (the instance keeps its fields and \<open>_dirty\<close> becomes false), and assigning a value
  whose cast differs from \<open>cur\<close>, \<open>None\<close> included, always raises: \<open>RuntimeError\<close>
  whenever \<open>pk\<close> can be read for the message. Conversely, once the cast has succeeded,
  the assignment raises only in these circumstances: a primary-key field that holds a
  value other than \<open>None\<close>, and a cast value different from it.
\<close>

theorem pk_assignment_amended:
  "schema_fields (Meta i) a = Some c \<and> c v = Inr v' \<longrightarrow>
     (a \<in> set (pk_fields (Meta i)) \<and> attrs i a = Some (Some cur) \<longrightarrow>
        (v' = Some cur \<longrightarrow> Model_assign_field i a v = Inr (i\<lparr>dirty_flag := False\<rparr>))
      \<and> (v' \<noteq> Some cur \<longrightarrow>
           (\<exists>e. Model_assign_field i a v = Inl e)
         \<and> (\<forall>k. Model_pk i = Inr k \<longrightarrow> Model_assign_field i a v = Inl RuntimeError)))
   \<and> (\<forall>e. Model_assign_field i a v = Inl e \<longrightarrow>
         a \<in> set (pk_fields (Meta i))
       \<and> (\<exists>cur'. attrs i a = Some (Some cur') \<and> v' \<noteq> Some cur'))"
proof (intro impI conjI allI; elim conjE)
  assume h: "schema_fields (Meta i) a = Some c" "c v = Inr v'"
    "a \<in> set (pk_fields (Meta i))" "attrs i a = Some (Some cur)"
  { assume "v' = Some cur"
    with h have "(attrs i)(a \<mapsto> v') = attrs i" by (simp add: map_upd_triv)
    with h \<open>v' = Some cur\<close> show "Model_assign_field i a v = Inr (i\<lparr>dirty_flag := False\<rparr>)"
      by (simp add: Model_assign_field_def) }
  { assume "v' \<noteq> Some cur"
    with h show "\<exists>e. Model_assign_field i a v = Inl e"
      by (auto simp: Model_assign_field_def split: sum.splits) }
  { fix k assume "v' \<noteq> Some cur" "Model_pk i = Inr k"
    with h show "Model_assign_field i a v = Inl RuntimeError"
      by (auto simp: Model_assign_field_def) }
next
  fix e assume h: "schema_fields (Meta i) a = Some c" "c v = Inr v'"
    and f: "Model_assign_field i a v = Inl e"
  from h f show "a \<in> set (pk_fields (Meta i))"
    by (auto simp: Model_assign_field_def split: option.splits if_splits)
  from h f show "\<exists>cur'. attrs i a = Some (Some cur') \<and> v' \<noteq> Some cur'"
    by (auto simp: Model_assign_field_def split: option.splits if_splits)
qed

theorem pk_assignment_amended_witness:
  "Model_assign_field (sample_model (Some 1) (Some 2) True) ''x'' (Some 1)
     = Inr (sample_model (Some 1) (Some 2) False)
   \<and> Model_assign_field (sample_model (Some 1) (Some 2) True) ''x'' (Some 7) = Inl RuntimeError
   \<and> Model_assign_field (sample_model (Some 1) (Some 2) True) ''x'' None = Inl RuntimeError"
proof -
  let ?i = "sample_model (Some 1) (Some 2) True"
  have f: "schema_fields (Meta ?i) ''x'' = Some Inr" "''x'' \<in> set (pk_fields (Meta ?i))"
    "attrs ?i ''x'' = Some (Some 1)"
    by (simp_all add: sample_model_def sample_meta_def)
  have r: "?i\<lparr>dirty_flag := False\<rparr> = sample_model (Some 1) (Some 2) False"
    by (simp add: sample_model_def)
  have p: "Model_pk ?i = Inr (KVal (Some 1))"
    by simp
  show ?thesis
    using pk_assignment_amended[where i = ?i and a = "''x''" and c = Inr and v = "Some 1"
        and v' = "Some 1" and cur = 1]
      pk_assignment_amended[where i = ?i and a = "''x''" and c = Inr and v = "Some 7"
        and v' = "Some 7" and cur = 1]
      pk_assignment_amended[where i = ?i and a = "''x''" and c = Inr and v = None
        and v' = None and cur = 1]
      f r p
    by simp
qed

text \<open>
  C9. Two instances whose \<open>pk\<close> can be read are equal if and only if they have the
  same class and equal \<open>pk\<close> values, whatever their other fields hold; an instance
  compared with an instance of another class, or with a value that is no model
  instance (\<open>None\<close> included), is not equal, and nothing is raised; \<open>__ne__\<close> returns
  the negation of what \<open>__eq__\<close> returns, and raises what it raises.
\<close>

theorem Model_eq_spec:
  "(Model_pk a = Inr ka \<and> Model_pk b = Inr kb
      \<longrightarrow> Model_eq a (Obj b) = Inr (class_name a = class_name b \<and> ka = kb))
   \<and> (class_name a \<noteq> class_name b \<longrightarrow> Model_eq a (Obj b) = Inr False)
   \<and> Model_eq a (NotAModel x) = Inr False
   \<and> (Model_eq a other = Inr t \<longrightarrow> Model_ne a other = Inr (\<not> t))
   \<and> (Model_eq a other = Inl e \<longrightarrow> Model_ne a other = Inl e)"
  by (auto simp: Model_eq_def Model_ne_def)

theorem Model_eq_spec_witness:
  "Model_eq (sample_model (Some 1) (Some 2) False) (Obj (sample_model (Some 1) None True)) = Inr True
   \<and> Model_ne (sample_model (Some 1) (Some 2) False) (Obj (sample_model (Some 1) None True)) = Inr False
   \<and> Model_eq (sample_model (Some 1) (Some 2) False) (Obj (sample_model (Some 3) (Some 2) False)) = Inr False
   \<and> Model_eq (sample_model (Some 1) (Some 2) False)
        (Obj ((sample_model (Some 1) (Some 2) False)\<lparr>class_name := ''N''\<rparr>)) = Inr False
   \<and> Model_eq (sample_model (Some 1) (Some 2) False) (NotAModel None) = Inr False
   \<and> Model_ne (sample_model (Some 1) (Some 2) False) (NotAModel None) = Inr True"
proof -
  have c: "class_name (sample_model (Some 1) (Some 2) False) = ''M''"
    "class_name (sample_model (Some 1) None True) = ''M''"
    "class_name (sample_model (Some 3) (Some 2) False) = ''M''"
    by (simp_all add: sample_model_def)
  show ?thesis
    using Model_eq_spec[where a = "sample_model (Some 1) (Some 2) False"
        and b = "sample_model (Some 1) None True" and ka = "KVal (Some 1)" and kb = "KVal (Some 1)"
        and other = "Obj (sample_model (Some 1) None True)" and t = True and x = None]
      Model_eq_spec[where a = "sample_model (Some 1) (Some 2) False"
        and b = "sample_model (Some 3) (Some 2) False" and ka = "KVal (Some 1)" and kb = "KVal (Some 3)"
        and other = "NotAModel None" and t = False and x = None]
      Model_eq_spec[where a = "sample_model (Some 1) (Some 2) False"
        and b = "(sample_model (Some 1) (Some 2) False)\<lparr>class_name := ''N''\<rparr>"]
      c
    by simp
qed

section \<open>Properties of the manager\<close>

lemma set_Manager_sorter: "set (Manager_sorter el False) = fmran' el"
proof -
  have "(\<lambda>k. the (fmlookup el k)) ` fset (fmdom el) = fmran' el"
    by (force simp: fmran'_def fmlookup_dom_iff image_iff)
  then show ?thesis by (simp add: Manager_sorter_def)
qed

lemma Manager_dirty_iff:
  "Manager_dirty m = (m_dirty m \<or> (\<exists>i \<in> fmran' (m_instances m). dirty_flag i))"
  by (simp add: Manager_dirty_def Manager_instances_def list_ex_iff set_Manager_sorter Model_dirty_def)

lemma Manager_sorter_keys:
  "\<exists>ks. sorted ks \<and> distinct ks \<and> set ks = fmdom' el
     \<and> map Some (Manager_sorter el False) = map (fmlookup el) ks"
proof -
  let ?ks = "sorted_list_of_fset (fmdom el)"
  have "sorted ?ks" "distinct ?ks"
    by (simp_all add: sorted_list_of_fset.rep_eq)
  moreover have "set ?ks = fmdom' el"
    by (simp add: fmdom'_alt_def)
  moreover have "map Some (Manager_sorter el False) = map (fmlookup el) ?ks"
    by (auto simp: Manager_sorter_def fmlookup_dom_iff)
  ultimately show ?thesis by blast
qed
lemma sorted_keys_1_2:
  "sorted_list_of_fset {|KVal (Some (1::int)), KVal (Some 2)|} = [KVal (Some 1), KVal (Some 2)]"
  by (simp add: sorted_list_of_fset.rep_eq less_eq_key_def)
lemma Manager_save_False:
  "Manager_save m i False = Inr m' \<Longrightarrow>
     \<exists>k. Model_pk i = Inr k \<and> k \<noteq> KVal None
       \<and> m' = m\<lparr>m_instances := fmupd k (i\<lparr>pk_memo := Some k\<rparr>) (m_instances m)\<rparr>"
  by (auto simp: Manager_save_def split: sum.splits if_splits)

lemma load_loop_frame:
  "load_loop m es = Inr m' \<Longrightarrow> m_dirty m' = m_dirty m \<and> m_model_class m' = m_model_class m"
proof (induction es arbitrary: m)
  case Nil
  then show ?case by simp
next
  case (Cons e es)
  from Cons.prems obtain i m1 where
    s: "Manager_save m i False = Inr m1" and r: "load_loop m1 es = Inr m'"
    by (auto split: sum.splits if_splits)
  from Manager_save_False[OF s] have "m_dirty m1 = m_dirty m" "m_model_class m1 = m_model_class m"
    by auto
  with Cons.IH[OF r] show ?case by simp
qed

lemma load_loop_result:
  "load_loop m es = Inr m' \<Longrightarrow>
     \<exists>insts ks. list_all2 (\<lambda>e i. as_instance (m_model_class m) e = Inr i) es insts
       \<and> list_all2 (\<lambda>i k. Model_pk i = Inr k \<and> k \<noteq> KVal None) insts ks
       \<and> distinct ks
       \<and> set ks \<inter> fmdom' (m_instances m) = {}
       \<and> fmdom' (m_instances m') = fmdom' (m_instances m) \<union> set ks
       \<and> (\<forall>k. k \<notin> set ks \<longrightarrow> fmlookup (m_instances m') k = fmlookup (m_instances m) k)
       \<and> list_all2 (\<lambda>i k. fmlookup (m_instances m') k = Some (i\<lparr>pk_memo := Some k\<rparr>)) insts ks
       \<and> fold (\<lambda>i r. case r of Inl x \<Rightarrow> Inl x | Inr s \<Rightarrow> Manager_save s i False) insts (Inr m)
           = Inr m'"
proof (induction es arbitrary: m)
  case Nil
  then show ?case by simp
next
  case (Cons e es)
  from Cons.prems obtain i k m1 where
    a: "as_instance (m_model_class m) e = Inr i" and p: "Model_pk i = Inr k"
    and fresh: "k |\<notin>| fmdom (m_instances m)"
    and s: "Manager_save m i False = Inr m1" and r: "load_loop m1 es = Inr m'"
    by (auto split: sum.splits if_splits)
  from Manager_save_False[OF s] p have nn: "k \<noteq> KVal None"
    and m1: "m1 = m\<lparr>m_instances := fmupd k (i\<lparr>pk_memo := Some k\<rparr>) (m_instances m)\<rparr>"
    by auto
  from Cons.IH[OF r] obtain insts ks where
    h1: "list_all2 (\<lambda>e i. as_instance (m_model_class m1) e = Inr i) es insts"
    and h2: "list_all2 (\<lambda>i k. Model_pk i = Inr k \<and> k \<noteq> KVal None) insts ks"
    and h3: "distinct ks"
    and h4: "set ks \<inter> fmdom' (m_instances m1) = {}"
    and h5: "fmdom' (m_instances m') = fmdom' (m_instances m1) \<union> set ks"
    and h6: "\<forall>k. k \<notin> set ks \<longrightarrow> fmlookup (m_instances m') k = fmlookup (m_instances m1) k"
    and h7: "list_all2 (\<lambda>i k. fmlookup (m_instances m') k = Some (i\<lparr>pk_memo := Some k\<rparr>)) insts ks"
    and h8: "fold (\<lambda>i r. case r of Inl x \<Rightarrow> Inl x | Inr s \<Rightarrow> Manager_save s i False) insts (Inr m1)
           = Inr m'"
    by blast
  from h4 m1 have knew: "k \<notin> set ks" and disj: "set ks \<inter> fmdom' (m_instances m) = {}"
    by auto
  from fresh have fresh': "k \<notin> fmdom' (m_instances m)"
    by (simp add: fmdom'_alt_def)
  have g1: "list_all2 (\<lambda>e i. as_instance (m_model_class m) e = Inr i) (e # es) (i # insts)"
    using a h1 m1 by simp
  have g2: "list_all2 (\<lambda>i k. Model_pk i = Inr k \<and> k \<noteq> KVal None) (i # insts) (k # ks)"
    using p nn h2 by simp
  have g3: "distinct (k # ks)"
    using knew h3 by simp
  have g4: "set (k # ks) \<inter> fmdom' (m_instances m) = {}"
    using disj fresh' by simp
  have g5: "fmdom' (m_instances m') = fmdom' (m_instances m) \<union> set (k # ks)"
    using h5 m1 by auto
  have g6: "\<forall>k'. k' \<notin> set (k # ks) \<longrightarrow> fmlookup (m_instances m') k' = fmlookup (m_instances m) k'"
    using h6 m1 by auto
  have "fmlookup (m_instances m') k = Some (i\<lparr>pk_memo := Some k\<rparr>)"
    using h6 knew m1 by simp
  then have g7: "list_all2 (\<lambda>i k. fmlookup (m_instances m') k = Some (i\<lparr>pk_memo := Some k\<rparr>))
      (i # insts) (k # ks)"
    using h7 by simp
  have g8: "fold (\<lambda>i r. case r of Inl x \<Rightarrow> Inl x | Inr s \<Rightarrow> Manager_save s i False) (i # insts) (Inr m)
           = Inr m'"
    using s h8 by simp
  from g1 g2 g3 g4 g5 g6 g7 g8 show ?case by blast
qed

lemma load_loop_succeeds:
  "list_all2 (\<lambda>e i. as_instance (m_model_class m) e = Inr i) es insts \<Longrightarrow>
   list_all2 (\<lambda>i k. Model_pk i = Inr k \<and> k \<noteq> KVal None) insts ks \<Longrightarrow>
   distinct ks \<Longrightarrow> set ks \<inter> fmdom' (m_instances m) = {} \<Longrightarrow>
   \<exists>m'. load_loop m es = Inr m'
     \<and> fmdom' (m_instances m') = fmdom' (m_instances m) \<union> set ks
     \<and> (\<forall>k. k \<notin> set ks \<longrightarrow> fmlookup (m_instances m') k = fmlookup (m_instances m) k)
     \<and> list_all2 (\<lambda>i k. fmlookup (m_instances m') k = Some (i\<lparr>pk_memo := Some k\<rparr>)) insts ks"
proof (induction es arbitrary: m insts ks)
  case Nil
  then show ?case by simp
next
  case (Cons e es)
  from Cons.prems(1) obtain i insts' where iseq: "insts = i # insts'"
    and a: "as_instance (m_model_class m) e = Inr i"
    and r1: "list_all2 (\<lambda>e i. as_instance (m_model_class m) e = Inr i) es insts'"
    by (auto simp: list_all2_Cons1)
  from Cons.prems(2) iseq obtain k ks' where ks: "ks = k # ks'"
    and p: "Model_pk i = Inr k" and nn: "k \<noteq> KVal None"
    and r2: "list_all2 (\<lambda>i k. Model_pk i = Inr k \<and> k \<noteq> KVal None) insts' ks'"
    by (auto simp: list_all2_Cons1)
  let ?m1 = "m\<lparr>m_instances := fmupd k (i\<lparr>pk_memo := Some k\<rparr>) (m_instances m)\<rparr>"
  from Cons.prems(3,4) ks have fresh: "k |\<notin>| fmdom (m_instances m)"
    and d: "distinct ks'" and disj: "set ks' \<inter> fmdom' (m_instances ?m1) = {}"
    and knew: "k \<notin> set ks'"
    by (auto simp: fmdom'_alt_def)
  have r1': "list_all2 (\<lambda>e i. as_instance (m_model_class ?m1) e = Inr i) es insts'"
    using r1 by simp
  from Cons.IH[OF r1' r2 d disj] obtain m' where
    l: "load_loop ?m1 es = Inr m'"
    and dm: "fmdom' (m_instances m') = fmdom' (m_instances ?m1) \<union> set ks'"
    and fr: "\<forall>k. k \<notin> set ks' \<longrightarrow> fmlookup (m_instances m') k = fmlookup (m_instances ?m1) k"
    and lk: "list_all2 (\<lambda>i k. fmlookup (m_instances m') k = Some (i\<lparr>pk_memo := Some k\<rparr>)) insts' ks'"
    by blast
  have g1: "load_loop m (e # es) = Inr m'"
    using a p nn fresh l by (simp add: Manager_save_def)
  have g2: "fmdom' (m_instances m') = fmdom' (m_instances m) \<union> set ks"
    using dm ks by auto
  have g3: "\<forall>k'. k' \<notin> set ks \<longrightarrow> fmlookup (m_instances m') k' = fmlookup (m_instances m) k'"
    using fr ks by auto
  have "fmlookup (m_instances m') k = Some (i\<lparr>pk_memo := Some k\<rparr>)"
    using fr knew by simp
  then have g4: "list_all2 (\<lambda>i k. fmlookup (m_instances m') k = Some (i\<lparr>pk_memo := Some k\<rparr>)) insts ks"
    using lk iseq ks by simp
  from g1 g2 g3 g4 show ?case by blast
qed

lemma load_loop_append:
  "load_loop m (xs @ ys) =
     (case load_loop m xs of Inl e \<Rightarrow> Inl e | Inr m1 \<Rightarrow> load_loop m1 ys)"
  by (induction xs arbitrary: m) (auto split: sum.splits)

lemma load_loop_raises:
  "load_loop m es = Inl (err, m1) \<Longrightarrow>
     \<exists>pre elem post. es = pre @ elem # post \<and> load_loop m pre = Inr m1
       \<and> load_loop m1 [elem] = Inl (err, m1)"
proof (induction es arbitrary: m)
  case Nil
  then show ?case by simp
next
  case (Cons e es)
  show ?case
  proof (cases "load_loop m [e]")
    case (Inl x)
    with Cons.prems have "x = (err, m1)" "m1 = m"
      by (auto split: sum.splits if_splits)
    with Inl have "e # es = [] @ e # es \<and> load_loop m [] = Inr m1
        \<and> load_loop m1 [e] = Inl (err, m1)"
      by simp
    then show ?thesis by blast
  next
    case (Inr m2)
    with Cons.prems have r: "load_loop m2 es = Inl (err, m1)"
      by (auto split: sum.splits if_splits)
    from Cons.IH[OF r] obtain pre elem post where
      es: "es = pre @ elem # post" and p: "load_loop m2 pre = Inr m1"
      and f: "load_loop m1 [elem] = Inl (err, m1)"
      by blast
    have "load_loop m (e # pre) = Inr m1"
      using load_loop_append[of m "[e]" pre] Inr p by simp
    with es f have "e # es = (e # pre) @ elem # post \<and> load_loop m (e # pre) = Inr m1
        \<and> load_loop m1 [elem] = Inl (err, m1)"
      by simp
    then show ?thesis by blast
  qed
qed

lemma load_loop_duplicate:
  assumes "list_all2 (\<lambda>e i. as_instance (m_model_class m) e = Inr i) pre insts"
    and "list_all2 (\<lambda>i k. Model_pk i = Inr k \<and> k \<noteq> KVal None) insts ks"
    and "distinct ks" and "set ks \<inter> fmdom' (m_instances m) = {}"
    and "as_instance (m_model_class m) e = Inr i" and "Model_pk i = Inr k" and "k \<in> set ks"
  shows "\<exists>m1. load_loop m (pre @ e # post) = Inl (KeyError, m1)
      \<and> m_dirty m1 = m_dirty m
      \<and> fmdom' (m_instances m1) = fmdom' (m_instances m) \<union> set ks
      \<and> list_all2 (\<lambda>i k. fmlookup (m_instances m1) k = Some (i\<lparr>pk_memo := Some k\<rparr>)) insts ks"
proof -
  from load_loop_succeeds[OF assms(1-4)] obtain m1 where
    l: "load_loop m pre = Inr m1"
    and d: "fmdom' (m_instances m1) = fmdom' (m_instances m) \<union> set ks"
    and lk: "list_all2 (\<lambda>i k. fmlookup (m_instances m1) k = Some (i\<lparr>pk_memo := Some k\<rparr>)) insts ks"
    by blast
  from load_loop_frame[OF l] have c: "m_model_class m1 = m_model_class m"
    and f: "m_dirty m1 = m_dirty m"
    by simp_all
  from d assms(7) have "k |\<in>| fmdom (m_instances m1)"
    by (simp add: fmdom'_alt_def)
  with l c assms(5,6) have "load_loop m (pre @ e # post) = Inl (KeyError, m1)"
    by (simp add: load_loop_append)
  with f d lk show ?thesis by blast
qed

lemma Manager_clear_simps:
  "m_instances (Manager_clear m) = fmempty" "m_model_class (Manager_clear m) = m_model_class m"
  "m_dirty (Manager_clear m) = (Manager_len m > 0)"
  by (simp_all add: Manager_clear_def)

lemma as_instance_case:
  "as_instance mc = (\<lambda>e. case e of RawDict d \<Rightarrow> cls_call mc d | Instance x \<Rightarrow> Inr x)"
  by (rule ext) (simp add: as_instance_def)

lemma Manager_load_result:
  assumes "Manager_load m st = Inr m'"
  shows "m_dirty m' = False" and "m_model_class m' = m_model_class m"
    and "\<exists>insts ks. list_all2 (\<lambda>e i. as_instance (m_model_class m) e = Inr i) (contents st) insts
         \<and> list_all2 (\<lambda>i k. Model_pk i = Inr k \<and> k \<noteq> KVal None) insts ks
         \<and> distinct ks
         \<and> fmdom' (m_instances m') = set ks
         \<and> list_all2 (\<lambda>i k. fmlookup (m_instances m') k = Some (i\<lparr>pk_memo := Some k\<rparr>)) insts ks"
proof -
  from assms obtain m1 where l: "load_loop (Manager_clear m) (contents st) = Inr m1"
    and m': "m' = m1\<lparr>m_dirty := False\<rparr>"
    by (auto simp: Manager_load_def Let_def Storage_read_def split: sum.splits)
  from m' show "m_dirty m' = False" by simp
  from load_loop_frame[OF l] m' show "m_model_class m' = m_model_class m"
    by (simp add: Manager_clear_simps)
  from load_loop_result[OF l] m'
  show "\<exists>insts ks. list_all2 (\<lambda>e i. as_instance (m_model_class m) e = Inr i) (contents st) insts
         \<and> list_all2 (\<lambda>i k. Model_pk i = Inr k \<and> k \<noteq> KVal None) insts ks
         \<and> distinct ks
         \<and> fmdom' (m_instances m') = set ks
         \<and> list_all2 (\<lambda>i k. fmlookup (m_instances m') k = Some (i\<lparr>pk_memo := Some k\<rparr>)) insts ks"
    by (simp add: Manager_clear_simps) blast
qed

lemma loaded_dirty_iff:
  assumes a: "list_all2 (\<lambda>e i. as_instance mc e = Inr i) es insts"
    and l: "list_all2 (\<lambda>i k. fmlookup fm k = Some (i\<lparr>pk_memo := Some k\<rparr>)) insts ks"
    and d: "fmdom' fm = set ks"
  shows "(\<exists>x \<in> fmran' fm. dirty_flag x)
     = (\<exists>e \<in> set es. \<exists>i. as_instance mc e = Inr i \<and> dirty_flag i)"
proof
  assume "\<exists>x \<in> fmran' fm. dirty_flag x"
  then obtain x k where x: "fmlookup fm k = Some x" "dirty_flag x"
    by blast
  then have "k \<in> set ks"
    using d by (auto intro: fmdom'I)
  then obtain j where j: "j < length ks" "ks ! j = k"
    by (auto simp: in_set_conv_nth)
  from l j have "fmlookup fm k = Some ((insts ! j)\<lparr>pk_memo := Some k\<rparr>)" and jl: "j < length insts"
    by (auto simp: list_all2_conv_all_nth)
  with x have di: "dirty_flag (insts ! j)"
    by auto
  from a jl have "as_instance mc (es ! j) = Inr (insts ! j)" "j < length es"
    by (auto simp: list_all2_conv_all_nth)
  with di show "\<exists>e \<in> set es. \<exists>i. as_instance mc e = Inr i \<and> dirty_flag i"
    by (metis nth_mem)
next
  assume "\<exists>e \<in> set es. \<exists>i. as_instance mc e = Inr i \<and> dirty_flag i"
  then obtain j i where j: "j < length es" "as_instance mc (es ! j) = Inr i" "dirty_flag i"
    by (auto simp: in_set_conv_nth)
  from a j have i: "i = insts ! j" and jl: "j < length insts"
    by (auto simp: list_all2_conv_all_nth)
  from l jl have "fmlookup fm (ks ! j) = Some ((insts ! j)\<lparr>pk_memo := Some (ks ! j)\<rparr>)"
    by (auto simp: list_all2_conv_all_nth)
  then have "(insts ! j)\<lparr>pk_memo := Some (ks ! j)\<rparr> \<in> fmran' fm"
    by (rule fmran'I)
  with i j(3) show "\<exists>x \<in> fmran' fm. dirty_flag x"
    by (intro bexI[where x = "(insts ! j)\<lparr>pk_memo := Some (ks ! j)\<rparr>"]) simp_all
qed

text \<open>
  C4. A record that \<open>read\<close> yields stands for an instance: the record itself, or, for
  a raw mapping of field values, what the call of the model class on it returns.

  When \<open>load\<close> succeeds, the manager-level dirty flag is false and the manager holds
  exactly these instances, each under its primary key: the keys are pairwise distinct,
  none is \<open>None\<close>, and nothing that was in the collection before is left. The
  collection is the one that \<open>save\<close>, called with the dirty flag suppressed on each
  instance in turn, builds from the cleared manager.

  When the records before some record load (each stands for an instance whose primary
  key is not \<open>None\<close> and differs from the keys before it) and that record's primary
  key is the key of one of them, \<open>load\<close> raises \<open>KeyError\<close> at that record: the
  manager is left holding the earlier records, the entry under the duplicated key
  still the earlier instance, and its dirty flag is the one \<open>clear\<close> set, which no
  \<open>save\<close> of the load has touched.

  When every record stands for an instance and the primary keys are all different and
  not \<open>None\<close>, \<open>load\<close> succeeds.

  Whatever \<open>load\<close> raises, it leaves the manager cleared of its earlier entries and
  holding the records before the failing one, with the dirty flag as \<open>clear\<close> set it.
\<close>

theorem Manager_load_spec:
  "(Manager_load m st = Inr m' \<longrightarrow>
      m_dirty m' = False \<and> m_model_class m' = m_model_class m
    \<and> (\<exists>insts ks.
          list_all2 (\<lambda>e i. (case e of RawDict d \<Rightarrow> cls_call (m_model_class m) d
                                     | Instance x \<Rightarrow> Inr x) = Inr i) (contents st) insts
        \<and> list_all2 (\<lambda>i k. Model_pk i = Inr k \<and> k \<noteq> KVal None) insts ks
        \<and> distinct ks
        \<and> fmdom' (m_instances m') = set ks
        \<and> list_all2 (\<lambda>i k. fmlookup (m_instances m') k = Some (i\<lparr>pk_memo := Some k\<rparr>)) insts ks
        \<and> (\<exists>m1. fold (\<lambda>i r. case r of Inl x \<Rightarrow> Inl x | Inr s \<Rightarrow> Manager_save s i False)
                    insts (Inr (Manager_clear m)) = Inr m1
               \<and> m' = m1\<lparr>m_dirty := False\<rparr>)))
   \<and> (contents st = pre @ e # post
        \<and> list_all2 (\<lambda>e i. (case e of RawDict d \<Rightarrow> cls_call (m_model_class m) d
                                   | Instance x \<Rightarrow> Inr x) = Inr i) pre js
        \<and> list_all2 (\<lambda>i k. Model_pk i = Inr k \<and> k \<noteq> KVal None) js ls
        \<and> distinct ls
        \<and> (case e of RawDict d \<Rightarrow> cls_call (m_model_class m) d | Instance x \<Rightarrow> Inr x) = Inr j
        \<and> Model_pk j = Inr l \<and> l \<in> set ls
      \<longrightarrow> (\<exists>m1. Manager_load m st = Inl (KeyError, m1)
             \<and> m_dirty m1 = (Manager_len m > 0)
             \<and> fmdom' (m_instances m1) = set ls
             \<and> list_all2 (\<lambda>i k. fmlookup (m_instances m1) k = Some (i\<lparr>pk_memo := Some k\<rparr>)) js ls))
   \<and> (list_all2 (\<lambda>e i. (case e of RawDict d \<Rightarrow> cls_call (m_model_class m) d
                                   | Instance x \<Rightarrow> Inr x) = Inr i) (contents st) js
        \<and> list_all2 (\<lambda>i k. Model_pk i = Inr k \<and> k \<noteq> KVal None) js ls
        \<and> distinct ls
      \<longrightarrow> (\<exists>m''. Manager_load m st = Inr m''))
   \<and> (Manager_load m st = Inl (err, m2) \<longrightarrow>
        m_dirty m2 = (Manager_len m > 0) \<and> m_model_class m2 = m_model_class m
      \<and> (\<exists>pre' elem post' insts ks.
            contents st = pre' @ elem # post'
          \<and> list_all2 (\<lambda>e i. (case e of RawDict d \<Rightarrow> cls_call (m_model_class m) d
                                       | Instance x \<Rightarrow> Inr x) = Inr i) pre' insts
          \<and> list_all2 (\<lambda>i k. Model_pk i = Inr k \<and> k \<noteq> KVal None) insts ks
          \<and> distinct ks
          \<and> fmdom' (m_instances m2) = set ks
          \<and> list_all2 (\<lambda>i k. fmlookup (m_instances m2) k = Some (i\<lparr>pk_memo := Some k\<rparr>))
               insts ks))"
proof (intro conjI impI)
  assume "Manager_load m st = Inr m'"
  then obtain m1 where l: "load_loop (Manager_clear m) (contents st) = Inr m1"
    and m': "m' = m1\<lparr>m_dirty := False\<rparr>"
    by (auto simp: Manager_load_def Let_def Storage_read_def split: sum.splits)
  from m' show "m_dirty m' = False" by simp
  from load_loop_frame[OF l] m' show "m_model_class m' = m_model_class m"
    by (simp add: Manager_clear_simps)
  from load_loop_result[OF l] obtain insts ks where
    h: "list_all2 (\<lambda>e i. as_instance (m_model_class (Manager_clear m)) e = Inr i) (contents st) insts"
      "list_all2 (\<lambda>i k. Model_pk i = Inr k \<and> k \<noteq> KVal None) insts ks"
      "distinct ks"
      "fmdom' (m_instances m1) = fmdom' (m_instances (Manager_clear m)) \<union> set ks"
      "list_all2 (\<lambda>i k. fmlookup (m_instances m1) k = Some (i\<lparr>pk_memo := Some k\<rparr>)) insts ks"
      "fold (\<lambda>i r. case r of Inl x \<Rightarrow> Inl x | Inr s \<Rightarrow> Manager_save s i False) insts
         (Inr (Manager_clear m)) = Inr m1"
    by blast
  from h(1) have b: "list_all2 (\<lambda>e i. (case e of RawDict d \<Rightarrow> cls_call (m_model_class m) d
                                     | Instance x \<Rightarrow> Inr x) = Inr i) (contents st) insts"
    by (simp add: Manager_clear_simps as_instance_case)
  from h(4) m' have d: "fmdom' (m_instances m') = set ks"
    by (simp add: Manager_clear_simps)
  from h(5) m' have k: "list_all2 (\<lambda>i k. fmlookup (m_instances m') k = Some (i\<lparr>pk_memo := Some k\<rparr>))
      insts ks"
    by simp
  from h(6) m' have f: "\<exists>m1. fold (\<lambda>i r. case r of Inl x \<Rightarrow> Inl x | Inr s \<Rightarrow> Manager_save s i False)
                    insts (Inr (Manager_clear m)) = Inr m1
               \<and> m' = m1\<lparr>m_dirty := False\<rparr>"
    by blast
  from b h(2,3) d k f
  show "\<exists>insts ks.
          list_all2 (\<lambda>e i. (case e of RawDict d \<Rightarrow> cls_call (m_model_class m) d
                                     | Instance x \<Rightarrow> Inr x) = Inr i) (contents st) insts
        \<and> list_all2 (\<lambda>i k. Model_pk i = Inr k \<and> k \<noteq> KVal None) insts ks
        \<and> distinct ks
        \<and> fmdom' (m_instances m') = set ks
        \<and> list_all2 (\<lambda>i k. fmlookup (m_instances m') k = Some (i\<lparr>pk_memo := Some k\<rparr>)) insts ks
        \<and> (\<exists>m1. fold (\<lambda>i r. case r of Inl x \<Rightarrow> Inl x | Inr s \<Rightarrow> Manager_save s i False)
                    insts (Inr (Manager_clear m)) = Inr m1
               \<and> m' = m1\<lparr>m_dirty := False\<rparr>)"
    by blast
next
  assume h: "contents st = pre @ e # post
        \<and> list_all2 (\<lambda>e i. (case e of RawDict d \<Rightarrow> cls_call (m_model_class m) d
                                   | Instance x \<Rightarrow> Inr x) = Inr i) pre js
        \<and> list_all2 (\<lambda>i k. Model_pk i = Inr k \<and> k \<noteq> KVal None) js ls
        \<and> distinct ls
        \<and> (case e of RawDict d \<Rightarrow> cls_call (m_model_class m) d | Instance x \<Rightarrow> Inr x) = Inr j
        \<and> Model_pk j = Inr l \<and> l \<in> set ls"
  then have "\<exists>m1. load_loop (Manager_clear m) (pre @ e # post) = Inl (KeyError, m1)
      \<and> m_dirty m1 = m_dirty (Manager_clear m)
      \<and> fmdom' (m_instances m1) = fmdom' (m_instances (Manager_clear m)) \<union> set ls
      \<and> list_all2 (\<lambda>i k. fmlookup (m_instances m1) k = Some (i\<lparr>pk_memo := Some k\<rparr>)) js ls"
    by (intro load_loop_duplicate[where i = j and k = l])
      (simp_all add: Manager_clear_simps as_instance_case)
  with h show "\<exists>m1. Manager_load m st = Inl (KeyError, m1)
             \<and> m_dirty m1 = (Manager_len m > 0)
             \<and> fmdom' (m_instances m1) = set ls
             \<and> list_all2 (\<lambda>i k. fmlookup (m_instances m1) k = Some (i\<lparr>pk_memo := Some k\<rparr>)) js ls"
    by (auto simp: Manager_load_def Let_def Storage_read_def Manager_clear_simps)
next
  assume h: "list_all2 (\<lambda>e i. (case e of RawDict d \<Rightarrow> cls_call (m_model_class m) d
                                   | Instance x \<Rightarrow> Inr x) = Inr i) (contents st) js
        \<and> list_all2 (\<lambda>i k. Model_pk i = Inr k \<and> k \<noteq> KVal None) js ls
        \<and> distinct ls"
  then have "\<exists>m'. load_loop (Manager_clear m) (contents st) = Inr m'
      \<and> fmdom' (m_instances m') = fmdom' (m_instances (Manager_clear m)) \<union> set ls
      \<and> (\<forall>k. k \<notin> set ls \<longrightarrow>
            fmlookup (m_instances m') k = fmlookup (m_instances (Manager_clear m)) k)
      \<and> list_all2 (\<lambda>i k. fmlookup (m_instances m') k = Some (i\<lparr>pk_memo := Some k\<rparr>)) js ls"
    by (intro load_loop_succeeds) (simp_all add: Manager_clear_simps as_instance_case)
  then show "\<exists>m''. Manager_load m st = Inr m''"
    by (auto simp: Manager_load_def Let_def Storage_read_def)
next
  assume "Manager_load m st = Inl (err, m2)"
  then have r: "load_loop (Manager_clear m) (contents st) = Inl (err, m2)"
    by (auto simp: Manager_load_def Let_def Storage_read_def split: sum.splits)
  from load_loop_raises[OF r] obtain pre' elem post' where
    c: "contents st = pre' @ elem # post'"
    and p: "load_loop (Manager_clear m) pre' = Inr m2"
    by blast
  from load_loop_frame[OF p] show "m_dirty m2 = (Manager_len m > 0)"
    and "m_model_class m2 = m_model_class m"
    by (simp_all add: Manager_clear_simps)
  from load_loop_result[OF p] obtain insts ks where
    h: "list_all2 (\<lambda>e i. as_instance (m_model_class (Manager_clear m)) e = Inr i) pre' insts"
      "list_all2 (\<lambda>i k. Model_pk i = Inr k \<and> k \<noteq> KVal None) insts ks"
      "distinct ks"
      "fmdom' (m_instances m2) = fmdom' (m_instances (Manager_clear m)) \<union> set ks"
      "list_all2 (\<lambda>i k. fmlookup (m_instances m2) k = Some (i\<lparr>pk_memo := Some k\<rparr>)) insts ks"
    by blast
  from h(1) have b: "list_all2 (\<lambda>e i. (case e of RawDict d \<Rightarrow> cls_call (m_model_class m) d
                                     | Instance x \<Rightarrow> Inr x) = Inr i) pre' insts"
    by (simp add: Manager_clear_simps as_instance_case)
  from h(4) have d: "fmdom' (m_instances m2) = set ks"
    by (simp add: Manager_clear_simps)
  from c b h(2,3) d h(5)
  show "\<exists>pre' elem post' insts ks.
            contents st = pre' @ elem # post'
          \<and> list_all2 (\<lambda>e i. (case e of RawDict d \<Rightarrow> cls_call (m_model_class m) d
                                       | Instance x \<Rightarrow> Inr x) = Inr i) pre' insts
          \<and> list_all2 (\<lambda>i k. Model_pk i = Inr k \<and> k \<noteq> KVal None) insts ks
          \<and> distinct ks
          \<and> fmdom' (m_instances m2) = set ks
          \<and> list_all2 (\<lambda>i k. fmlookup (m_instances m2) k = Some (i\<lparr>pk_memo := Some k\<rparr>))
               insts ks"
    by blast
qed

theorem Manager_load_spec_witness:
  "Manager_load
     \<lparr>m_model_class = sample_class,
      m_instances = fmupd (KVal (Some 9)) (sample_model (Some 9) None False) fmempty,
      m_dirty = True\<rparr>
     \<lparr>contents = [RawDict [''x'' \<mapsto> Some 2, ''s'' \<mapsto> Some 0],
                  Instance (sample_model (Some 1) None True)],
      written = []\<rparr>
   = Inr \<lparr>m_model_class = sample_class,
          m_instances =
            fmupd (KVal (Some 1)) ((sample_model (Some 1) None True)\<lparr>pk_memo := Some (KVal (Some 1))\<rparr>)
              (fmupd (KVal (Some 2))
                 \<lparr>class_name = ''M'', Meta = sample_meta,
                  attrs = [''x'' \<mapsto> Some 2, ''s'' \<mapsto> Some 0],
                  dirty_flag = False, pk_memo = Some (KVal (Some 2))\<rparr>
                 fmempty),
          m_dirty = False\<rparr>
   \<and> Manager_load
     \<lparr>m_model_class = sample_class,
      m_instances = fmupd (KVal (Some 9)) (sample_model (Some 9) None False) fmempty,
      m_dirty = False\<rparr>
     \<lparr>contents = [Instance (sample_model (Some 2) (Some 0) False),
                  RawDict [''x'' \<mapsto> Some 2, ''s'' \<mapsto> Some 5],
                  Instance (sample_model (Some 3) None False)],
      written = []\<rparr>
   = Inl (KeyError,
          \<lparr>m_model_class = sample_class,
           m_instances =
             fmupd (KVal (Some 2))
               ((sample_model (Some 2) (Some 0) False)\<lparr>pk_memo := Some (KVal (Some 2))\<rparr>) fmempty,
           m_dirty = True\<rparr>)"
proof -
  let ?m = "\<lparr>m_model_class = sample_class,
      m_instances = fmupd (KVal (Some 9)) (sample_model (Some 9) None False) fmempty,
      m_dirty = False\<rparr>"
  let ?st = "\<lparr>contents = [Instance (sample_model (Some 2) (Some 0) False),
                  RawDict [''x'' \<mapsto> Some 2, ''s'' \<mapsto> Some 5],
                  Instance (sample_model (Some 3) None False)],
      written = []\<rparr>"
  let ?built = "\<lparr>class_name = ''M'', Meta = sample_meta,
      attrs = [''x'' \<mapsto> Some 2, ''s'' \<mapsto> Some (5::int)],
      dirty_flag = False, pk_memo = None\<rparr>"
  let ?left = "\<lparr>m_model_class = sample_class,
           m_instances =
             fmupd (KVal (Some 2))
               ((sample_model (Some 2) (Some 0) False)\<lparr>pk_memo := Some (KVal (Some 2))\<rparr>) fmempty,
           m_dirty = True\<rparr>"
  have ok: "Manager_load
     \<lparr>m_model_class = sample_class,
      m_instances = fmupd (KVal (Some 9)) (sample_model (Some 9) None False) fmempty,
      m_dirty = True\<rparr>
     \<lparr>contents = [RawDict [''x'' \<mapsto> Some 2, ''s'' \<mapsto> Some 0],
                  Instance (sample_model (Some 1) None True)],
      written = []\<rparr>
   = Inr \<lparr>m_model_class = sample_class,
          m_instances =
            fmupd (KVal (Some 1)) ((sample_model (Some 1) None True)\<lparr>pk_memo := Some (KVal (Some 1))\<rparr>)
              (fmupd (KVal (Some 2))
                 \<lparr>class_name = ''M'', Meta = sample_meta,
                  attrs = [''x'' \<mapsto> Some 2, ''s'' \<mapsto> Some 0],
                  dirty_flag = False, pk_memo = Some (KVal (Some 2))\<rparr>
                 fmempty),
          m_dirty = False\<rparr>"
    by (simp add: Manager_load_def Manager_clear_def Manager_len_def Storage_read_def
        as_instance_def Manager_save_def built_pk Let_def)
  have built: "Model_pk ?built = Inr (KVal (Some 2))"
    by (simp add: built_pk)
  have ev: "Manager_load ?m ?st = Inl (KeyError, ?left)"
    by (simp add: Manager_load_def Manager_clear_def Manager_len_def Storage_read_def
        as_instance_def Manager_save_def built_pk Let_def fcard_finsert_if)
  from Manager_load_spec[where m = ?m and st = ?st
        and pre = "[Instance (sample_model (Some 2) (Some 0) False)]"
        and e = "RawDict [''x'' \<mapsto> Some 2, ''s'' \<mapsto> Some 5]"
        and post = "[Instance (sample_model (Some 3) None False)]"
        and js = "[sample_model (Some 2) (Some 0) False]"
        and ls = "[KVal (Some 2)]"
        and j = ?built and l = "KVal (Some 2)", THEN conjunct2, THEN conjunct1] built
  have "\<exists>m1. Manager_load ?m ?st = Inl (KeyError, m1)
      \<and> m_dirty m1 = (Manager_len ?m > 0)
      \<and> fmdom' (m_instances m1) = set [KVal (Some 2)]
      \<and> list_all2 (\<lambda>i k. fmlookup (m_instances m1) k = Some (i\<lparr>pk_memo := Some k\<rparr>))
           [sample_model (Some 2) (Some 0) False] [KVal (Some 2)]"
    by simp
  then obtain m1 where dup: "Manager_load ?m ?st = Inl (KeyError, m1)"
    by blast
  with ev have "m1 = ?left" by simp
  with dup have "Manager_load ?m ?st = Inl (KeyError, ?left)" by simp
  with ok show ?thesis by (rule conjI)
qed

text \<open>
  C5. After \<open>store\<close> the manager-level dirty flag is false, and the collection, with
  every instance and its own dirty flag, is what it was. If \<open>force\<close> is true or the
  aggregate dirty state is true, \<open>write\<close> is called once, with the owned instances in
  ascending order of their primary keys, each once; otherwise the storage is left as it
  is.
\<close>

theorem Manager_store_spec:
  assumes "Manager_store m st force = (m', st')"
  shows "m_dirty m' = False \<and> m_instances m' = m_instances m
     \<and> m_model_class m' = m_model_class m \<and> contents st' = contents st
     \<and> (force \<or> Manager_dirty m \<longrightarrow>
          (\<exists>ws ks. written st' = written st @ [ws] \<and> sorted ks \<and> distinct ks
             \<and> set ks = fmdom' (m_instances m)
             \<and> map Some ws = map (fmlookup (m_instances m)) ks))
     \<and> (\<not> force \<and> \<not> Manager_dirty m \<longrightarrow> st' = st)"
proof (cases "force \<or> Manager_dirty m")
  case True
  then have d: "Manager_dirty (if force then m\<lparr>m_dirty := True\<rparr> else m)"
    by (auto simp: Manager_dirty_def)
  have i: "m_instances (if force then m\<lparr>m_dirty := True\<rparr> else m) = m_instances m"
    by simp
  from assms d have m': "m' = (if force then m\<lparr>m_dirty := True\<rparr> else m)\<lparr>m_dirty := False\<rparr>"
    and st': "st' = Storage_write st (Manager_sorter (m_instances m) False)"
    by (auto simp: Manager_store_def Let_def)
  from Manager_sorter_keys[of "m_instances m"] obtain ks where
    "sorted ks" "distinct ks" "set ks = fmdom' (m_instances m)"
    "map Some (Manager_sorter (m_instances m) False) = map (fmlookup (m_instances m)) ks"
    by blast
  with True m' st' show ?thesis
    by (auto simp: Storage_write_def)
next
  case False
  with assms show ?thesis
    by (auto simp: Manager_store_def Let_def)
qed

theorem Manager_store_spec_witness:
  "Manager_store
     \<lparr>m_model_class = sample_class,
      m_instances =
        fmupd (KVal (Some 1)) (sample_model (Some 1) None False)
          (fmupd (KVal (Some 2)) (sample_model (Some 2) (Some 0) True) fmempty),
      m_dirty = False\<rparr>
     \<lparr>contents = [], written = []\<rparr> False
   = (\<lparr>m_model_class = sample_class,
       m_instances =
         fmupd (KVal (Some 1)) (sample_model (Some 1) None False)
           (fmupd (KVal (Some 2)) (sample_model (Some 2) (Some 0) True) fmempty),
       m_dirty = False\<rparr>,
      \<lparr>contents = [],
       written = [[sample_model (Some 1) None False, sample_model (Some 2) (Some 0) True]]\<rparr>)
   \<and> (\<exists>ks. sorted ks \<and> distinct ks \<and> set ks = {KVal (Some 1), KVal (Some (2::int))}
        \<and> map Some [sample_model (Some 1) None False, sample_model (Some 2) (Some 0) True]
            = map (fmlookup (fmupd (KVal (Some 1)) (sample_model (Some 1) None False)
                   (fmupd (KVal (Some 2)) (sample_model (Some 2) (Some 0) True) fmempty))) ks)"
proof -
  let ?m = "\<lparr>m_model_class = sample_class,
      m_instances =
        fmupd (KVal (Some 1)) (sample_model (Some 1) None False)
          (fmupd (KVal (Some 2)) (sample_model (Some 2) (Some 0) True) fmempty),
      m_dirty = False\<rparr>"
  let ?st = "\<lparr>contents = [], written = []\<rparr> :: int storage"
  have d: "Manager_dirty ?m"
    by (simp add: Manager_dirty_def Manager_instances_def Manager_sorter_def sorted_keys_1_2
        Model_dirty_def sample_model_def)
  have r: "Manager_store ?m ?st False
    = (?m, \<lparr>contents = [],
       written = [[sample_model (Some 1) None False, sample_model (Some 2) (Some 0) True]]\<rparr>)"
    using d by (simp add: Manager_store_def Manager_sorter_def sorted_keys_1_2 Storage_write_def)
  from Manager_store_spec[OF r] d r show ?thesis
    by auto
qed

text \<open>
  C1, as stated, fails: \<open>load\<close> clears the manager-level flag only, and the aggregate
  dirty state also looks at the loaded instances. A storage whose \<open>read\<close> yields one
  instance that is itself dirty (as an instance is after a field has been assigned a new
  value) is loaded, and the \<open>store\<close> that follows, with \<open>force\<close> false, writes that
  instance.
\<close>

theorem load_then_store_counterexample:
  "Manager_load (Manager_init sample_class)
      \<lparr>contents = [Instance (sample_model (Some 1) (Some 2) True)], written = []\<rparr>
    = Inr \<lparr>m_model_class = sample_class,
           m_instances = fmupd (KVal (Some 1))
              ((sample_model (Some 1) (Some 2) True)\<lparr>pk_memo := Some (KVal (Some 1))\<rparr>) fmempty,
           m_dirty = False\<rparr>
   \<and> Manager_store
        \<lparr>m_model_class = sample_class,
         m_instances = fmupd (KVal (Some 1))
            ((sample_model (Some 1) (Some 2) True)\<lparr>pk_memo := Some (KVal (Some 1))\<rparr>) fmempty,
         m_dirty = False\<rparr>
        \<lparr>contents = [Instance (sample_model (Some 1) (Some 2) True)], written = []\<rparr>
        False
      = (\<lparr>m_model_class = sample_class,
          m_instances = fmupd (KVal (Some 1))
             ((sample_model (Some 1) (Some 2) True)\<lparr>pk_memo := Some (KVal (Some 1))\<rparr>) fmempty,
          m_dirty = False\<rparr>,
         \<lparr>contents = [Instance (sample_model (Some 1) (Some 2) True)],
          written = [[(sample_model (Some 1) (Some 2) True)\<lparr>pk_memo := Some (KVal (Some 1))\<rparr>]]\<rparr>)"
proof -
  have l: "Manager_load (Manager_init sample_class)
      \<lparr>contents = [Instance (sample_model (Some 1) (Some 2) True)], written = []\<rparr>
    = Inr \<lparr>m_model_class = sample_class,
           m_instances = fmupd (KVal (Some 1))
              ((sample_model (Some 1) (Some 2) True)\<lparr>pk_memo := Some (KVal (Some 1))\<rparr>) fmempty,
           m_dirty = False\<rparr>"
    by (simp add: Manager_load_def Manager_init_def Manager_clear_def Manager_len_def
        Storage_read_def as_instance_def Manager_save_def Let_def)
  have d: "dirty_flag ((sample_model (Some 1) (Some 2) True)\<lparr>pk_memo := Some (KVal (Some 1))\<rparr>)"
    by (simp add: sample_model_def)
  have s: "Manager_store
        \<lparr>m_model_class = sample_class,
         m_instances = fmupd (KVal (Some 1))
            ((sample_model (Some 1) (Some 2) True)\<lparr>pk_memo := Some (KVal (Some 1))\<rparr>) fmempty,
         m_dirty = False\<rparr>
        \<lparr>contents = [Instance (sample_model (Some 1) (Some 2) True)], written = []\<rparr>
        False
      = (\<lparr>m_model_class = sample_class,
          m_instances = fmupd (KVal (Some 1))
             ((sample_model (Some 1) (Some 2) True)\<lparr>pk_memo := Some (KVal (Some 1))\<rparr>) fmempty,
          m_dirty = False\<rparr>,
         \<lparr>contents = [Instance (sample_model (Some 1) (Some 2) True)],
          written = [[(sample_model (Some 1) (Some 2) True)\<lparr>pk_memo := Some (KVal (Some 1))\<rparr>]]\<rparr>)"
    using d
    by (simp add: Manager_store_def Manager_dirty_def Manager_instances_def Manager_sorter_def
        sorted_list_of_fset.rep_eq Model_dirty_def Storage_write_def Let_def)
  from l s show ?thesis by (rule conjI)
qed

text \<open>
  C1 (amended). After a successful \<open>load\<close> the manager-level dirty flag is false, and
  the aggregate dirty state is true exactly when one of the instances that the load
  produced is itself dirty. A \<open>store\<close> that follows at once with \<open>force\<close> false leaves
  the manager as it is; it performs no write when no loaded instance is dirty, and
  otherwise writes the owned instances.
\<close>

theorem load_then_store_amended:
  fixes m :: "'v::linorder manager"
  shows "Manager_load m st = Inr m' \<longrightarrow>
     m_dirty m' = False
   \<and> Manager_dirty m'
       = (\<exists>e \<in> set (contents st). \<exists>i. as_instance (m_model_class m) e = Inr i \<and> dirty_flag i)
   \<and> (\<not> Manager_dirty m' \<longrightarrow> Manager_store m' st False = (m', st))
   \<and> (Manager_dirty m' \<longrightarrow>
        Manager_store m' st False = (m', Storage_write st (Manager_instances m'))
      \<and> Storage_write st (Manager_instances m') \<noteq> st)"
proof
  assume l: "Manager_load m st = Inr m'"
  from Manager_load_result[OF l] obtain insts ks where
    f: "m_dirty m' = False"
    and a: "list_all2 (\<lambda>e i. as_instance (m_model_class m) e = Inr i) (contents st) insts"
    and d: "fmdom' (m_instances m') = set ks"
    and k: "list_all2 (\<lambda>i k. fmlookup (m_instances m') k = Some (i\<lparr>pk_memo := Some k\<rparr>)) insts ks"
    by blast
  from f have same: "m'\<lparr>m_dirty := False\<rparr> = m'"
    by simp
  have dirty: "Manager_dirty m'
       = (\<exists>e \<in> set (contents st). \<exists>i. as_instance (m_model_class m) e = Inr i \<and> dirty_flag i)"
    using loaded_dirty_iff[OF a k d] f by (simp add: Manager_dirty_iff)
  have clean: "Manager_store m' st False = (m', st)" if "\<not> Manager_dirty m'"
    using that same by (simp add: Manager_store_def Let_def)
  have wr: "Manager_store m' st False = (m', Storage_write st (Manager_instances m'))"
    if "Manager_dirty m'"
    using that same by (simp add: Manager_store_def Manager_instances_def Let_def)
  have ne: "Storage_write st xs \<noteq> st" for xs
  proof
    assume "Storage_write st xs = st"
    then have "written (Storage_write st xs) = written st" by simp
    then show False by (simp add: Storage_write_def)
  qed
  from f dirty clean wr ne
  show "m_dirty m' = False
   \<and> Manager_dirty m'
       = (\<exists>e \<in> set (contents st). \<exists>i. as_instance (m_model_class m) e = Inr i \<and> dirty_flag i)
   \<and> (\<not> Manager_dirty m' \<longrightarrow> Manager_store m' st False = (m', st))
   \<and> (Manager_dirty m' \<longrightarrow>
        Manager_store m' st False = (m', Storage_write st (Manager_instances m'))
      \<and> Storage_write st (Manager_instances m') \<noteq> st)"
    by blast
qed

theorem load_then_store_amended_witness:
  "Manager_load (Manager_init sample_class)
      \<lparr>contents = [Instance (sample_model (Some 1) (Some 2) False),
                   RawDict [''x'' \<mapsto> Some 3]], written = []\<rparr>
    = Inr \<lparr>m_model_class = sample_class,
           m_instances =
             fmupd (KVal (Some 3))
               \<lparr>class_name = ''M'', Meta = sample_meta, attrs = [''x'' \<mapsto> Some 3],
                dirty_flag = False, pk_memo = Some (KVal (Some 3))\<rparr>
               (fmupd (KVal (Some 1))
                 ((sample_model (Some 1) (Some 2) False)\<lparr>pk_memo := Some (KVal (Some 1))\<rparr>)
                 fmempty),
           m_dirty = False\<rparr>
   \<and> Manager_store
        \<lparr>m_model_class = sample_class,
         m_instances =
           fmupd (KVal (Some 3))
             \<lparr>class_name = ''M'', Meta = sample_meta, attrs = [''x'' \<mapsto> Some 3],
              dirty_flag = False, pk_memo = Some (KVal (Some 3))\<rparr>
             (fmupd (KVal (Some 1))
               ((sample_model (Some 1) (Some 2) False)\<lparr>pk_memo := Some (KVal (Some 1))\<rparr>)
               fmempty),
         m_dirty = False\<rparr>
        \<lparr>contents = [Instance (sample_model (Some 1) (Some 2) False),
                     RawDict [''x'' \<mapsto> Some 3]], written = []\<rparr>
        False
      = (\<lparr>m_model_class = sample_class,
          m_instances =
            fmupd (KVal (Some 3))
              \<lparr>class_name = ''M'', Meta = sample_meta, attrs = [''x'' \<mapsto> Some 3],
               dirty_flag = False, pk_memo = Some (KVal (Some 3))\<rparr>
              (fmupd (KVal (Some 1))
                ((sample_model (Some 1) (Some 2) False)\<lparr>pk_memo := Some (KVal (Some 1))\<rparr>)
                fmempty),
          m_dirty = False\<rparr>,
         \<lparr>contents = [Instance (sample_model (Some 1) (Some 2) False),
                      RawDict [''x'' \<mapsto> Some 3]], written = []\<rparr>)"
proof -
  let ?st = "\<lparr>contents = [Instance (sample_model (Some 1) (Some 2) False),
                   RawDict [''x'' \<mapsto> Some 3]], written = []\<rparr>"
  let ?loaded = "\<lparr>m_model_class = sample_class,
           m_instances =
             fmupd (KVal (Some 3))
               \<lparr>class_name = ''M'', Meta = sample_meta, attrs = [''x'' \<mapsto> Some 3],
                dirty_flag = False, pk_memo = Some (KVal (Some 3))\<rparr>
               (fmupd (KVal (Some 1))
                 ((sample_model (Some 1) (Some 2) False)\<lparr>pk_memo := Some (KVal (Some 1))\<rparr>)
                 fmempty),
           m_dirty = False\<rparr>"
  have l: "Manager_load (Manager_init sample_class) ?st = Inr ?loaded"
    by (simp add: Manager_load_def Manager_init_def Manager_clear_def Manager_len_def
        Storage_read_def as_instance_def Manager_save_def built_pk Let_def)
  have c: "m_model_class (Manager_init sample_class) = sample_class"
    by (simp add: Manager_init_def Manager_clear_def)
  have clean: "\<not> (\<exists>e \<in> set (contents ?st).
      \<exists>i. as_instance (m_model_class (Manager_init sample_class)) e = Inr i \<and> dirty_flag i)"
    by (auto simp: c as_instance_def sample_model_def)
  from load_then_store_amended[of "Manager_init sample_class" ?st ?loaded] l clean
  have "Manager_store ?loaded ?st False = (?loaded, ?st)"
    by blast
  with l show ?thesis by simp
qed

text \<open>
  C8. For an instance whose \<open>pk\<close> can be read: if the manager holds an entry under
  that key, \<open>delete\<close> removes it, leaves every other entry, and sets the manager-level
  dirty flag; if it holds none, \<open>delete\<close> raises nothing and returns the manager as it
  was, collection and dirty flag included; and deleting the same instance again, after
  a \<open>delete\<close> that returned, changes nothing more.
\<close>

theorem Manager_delete_spec:
  "Model_pk i = Inr k \<longrightarrow>
     (fmlookup (m_instances m) k \<noteq> None \<longrightarrow>
        (\<exists>m'. Manager_delete m i = Inr m'
           \<and> fmlookup (m_instances m') k = None
           \<and> (\<forall>k'. k' \<noteq> k \<longrightarrow> fmlookup (m_instances m') k' = fmlookup (m_instances m) k')
           \<and> m_dirty m' = True
           \<and> m_model_class m' = m_model_class m))
   \<and> (fmlookup (m_instances m) k = None \<longrightarrow> Manager_delete m i = Inr m)
   \<and> (Manager_delete m i = Inr m1 \<longrightarrow> Manager_delete m1 i = Inr m1)"
proof (intro impI conjI)
  assume p: "Model_pk i = Inr k"
  { assume "fmlookup (m_instances m) k \<noteq> None"
    then have "k |\<in>| fmdom (m_instances m)"
      by (auto simp: fmlookup_dom_iff)
    with p have "Manager_delete m i
        = Inr (m\<lparr>m_instances := fmdrop k (m_instances m), m_dirty := True\<rparr>)"
      by (simp add: Manager_delete_def)
    then show "\<exists>m'. Manager_delete m i = Inr m'
           \<and> fmlookup (m_instances m') k = None
           \<and> (\<forall>k'. k' \<noteq> k \<longrightarrow> fmlookup (m_instances m') k' = fmlookup (m_instances m) k')
           \<and> m_dirty m' = True
           \<and> m_model_class m' = m_model_class m"
      by simp }
  { assume "fmlookup (m_instances m) k = None"
    then have "k |\<notin>| fmdom (m_instances m)"
      by (simp add: fmdom_notI)
    with p show "Manager_delete m i = Inr m"
      by (simp add: Manager_delete_def) }
  { assume d: "Manager_delete m i = Inr m1"
    have "k |\<notin>| fmdom (m_instances m1)"
    proof (cases "k |\<in>| fmdom (m_instances m)")
      case True
      with p d have "m1 = m\<lparr>m_instances := fmdrop k (m_instances m), m_dirty := True\<rparr>"
        by (simp add: Manager_delete_def)
      then show ?thesis by simp
    next
      case False
      with p d have "m1 = m" by (simp add: Manager_delete_def)
      with False show ?thesis by simp
    qed
    with p show "Manager_delete m1 i = Inr m1"
      by (simp add: Manager_delete_def) }
qed

theorem Manager_delete_spec_witness:
  "Manager_delete
      \<lparr>m_model_class = sample_class,
       m_instances = fmupd (KVal (Some 1)) (sample_model (Some 1) None False) fmempty,
       m_dirty = False\<rparr>
      (sample_model (Some 1) (Some 4) False)
    = Inr \<lparr>m_model_class = sample_class, m_instances = fmempty, m_dirty = True\<rparr>
   \<and> Manager_delete \<lparr>m_model_class = sample_class, m_instances = fmempty, m_dirty = True\<rparr>
      (sample_model (Some 1) (Some 4) False)
    = Inr \<lparr>m_model_class = sample_class, m_instances = fmempty, m_dirty = True\<rparr>
   \<and> Manager_delete \<lparr>m_model_class = sample_class, m_instances = fmempty, m_dirty = False\<rparr>
      (sample_model (Some 1) (Some 4) False)
    = Inr \<lparr>m_model_class = sample_class, m_instances = fmempty, m_dirty = False\<rparr>"
proof -
  let ?i = "sample_model (Some 1) (Some 4) False"
  let ?m = "\<lparr>m_model_class = sample_class,
       m_instances = fmupd (KVal (Some 1)) (sample_model (Some 1) None False) fmempty,
       m_dirty = False\<rparr>"
  let ?after = "\<lparr>m_model_class = sample_class, m_instances = fmempty, m_dirty = True\<rparr> :: int manager"
  let ?empty = "\<lparr>m_model_class = sample_class, m_instances = fmempty, m_dirty = False\<rparr> :: int manager"
  have p: "Model_pk ?i = Inr (KVal (Some 1))"
    by simp
  have d: "Manager_delete ?m ?i = Inr ?after"
    by (simp add: Manager_delete_def fmdrop_fmupd_same)
  have twice: "Manager_delete ?after ?i = Inr ?after"
    by (rule Manager_delete_spec[where i = ?i and k = "KVal (Some 1)" and m = ?m and ?m1.0 = ?after,
          THEN mp, OF p, THEN conjunct2, THEN conjunct2, THEN mp, OF d])
  have absent: "Manager_delete ?empty ?i = Inr ?empty"
    by (rule Manager_delete_spec[where i = ?i and k = "KVal (Some 1)" and m = ?empty,
          THEN mp, OF p, THEN conjunct2, THEN conjunct1, THEN mp]) simp
  from d twice absent show ?thesis
    by blast
qed


end
